theory Spec2Isabelle
  imports
    Complex_Main
    "HOL-Library.Char_ord"
    "HOL-Library.List_Lexorder"
    "HOL-Library.Multiset"
begin

section \<open>Python values and exceptions\<close>

text \<open>
  The scripts are Python. An exception is a value of \<open>py_error\<close>; a function that may
  raise returns \<open>py_error + 'a\<close> with \<open>Inl\<close> for the exception.
\<close>

datatype py_error =
    KeyError
  | TypeError
  | ValueError
  | AttributeError
  | RequestException
  | JSONDecodeError
  | AlphaVantageError
  | DatabaseError
  | NoDataError
  | OverflowError
  | RecursionError

definition bind :: "py_error + 'a \<Rightarrow> ('a \<Rightarrow> py_error + 'b) \<Rightarrow> py_error + 'b" where
  "bind m f = (case m of Inl e \<Rightarrow> Inl e | Inr x \<Rightarrow> f x)"

text \<open>
  A decoded JSON document, as \<open>response.json()\<close> and \<open>json.load\<close> return it. A Python
  dict keeps its insertion order, so a dict is an association list. The type \<open>'f\<close> stands
  for Python's \<open>float\<close>: floating-point arithmetic is not modelled, and the builtins
  \<open>float\<close> and \<open>int\<close> are parameters of every function that calls them, returning the
  converted value or the exception they raise.
\<close>

datatype 'f json =
    JNull
  | JBool bool
  | JInt int
  | JFloat 'f
  | JStr string
  | JList "'f json list"
  | JDict "(string \<times> 'f json) list"

type_synonym 'f py_dict = "(string \<times> 'f json) list"

text \<open>\<open>values[key]\<close> with a string key: only a dict can be indexed by a string.\<close>

fun subscript :: "'f json \<Rightarrow> string \<Rightarrow> py_error + 'f json" where
  "subscript (JDict kvs) k = (case map_of kvs k of None \<Rightarrow> Inl KeyError | Some v \<Rightarrow> Inr v)"
| "subscript _ k = Inl TypeError"

text \<open>\<open>time_series.items()\<close>: only a dict has the method.\<close>

fun items :: "'f json \<Rightarrow> py_error + (string \<times> 'f json) list" where
  "items (JDict kvs) = Inr kvs"
| "items _ = Inl AttributeError"

text \<open>
  \<open>xs.sort(key=f, reverse=True)\<close>: Python's sort is stable also when reversed, which it
  achieves by reversing the list before and after an ascending stable sort.
\<close>

definition sort_reverse :: "('a \<Rightarrow> 'k::linorder) \<Rightarrow> 'a list \<Rightarrow> 'a list" where
  "sort_reverse f xs = rev (sort_key f (rev xs))"

section \<open>Parsing the daily time series\<close>

record 'f daily_record =
  d_date :: string
  d_open :: 'f
  d_high :: 'f
  d_low :: 'f
  d_close :: 'f
  d_volume :: int

record 'f adjusted_record =
  a_date :: string
  a_open :: 'f
  a_high :: 'f
  a_low :: 'f
  a_close :: 'f
  a_adjusted_close :: 'f
  a_volume :: int
  a_dividend_amount :: 'f
  a_split_coefficient :: 'f

subsection \<open>The commented version: class AlphaVantageAPI\<close>

text \<open>
  The loop \<open>for date, values in time_series.items(): formatted_data.append({...})\<close>. The
  entries of the dict literal are evaluated in the order they are written, and the first
  exception ends the loop.
\<close>

fun API_format_daily ::
  "('f json \<Rightarrow> py_error + 'f) \<Rightarrow> ('f json \<Rightarrow> py_error + int) \<Rightarrow>
   (string \<times> 'f json) list \<Rightarrow> py_error + 'f daily_record list" where
  "API_format_daily float_of int_of [] = Inr []"
| "API_format_daily float_of int_of ((date, values) # rest) =
     bind (bind (subscript values ''1. open'') float_of) (\<lambda>op.
     bind (bind (subscript values ''2. high'') float_of) (\<lambda>hi.
     bind (bind (subscript values ''3. low'') float_of) (\<lambda>lo.
     bind (bind (subscript values ''4. close'') float_of) (\<lambda>cl.
     bind (bind (subscript values ''5. volume'') int_of) (\<lambda>vol.
     bind (API_format_daily float_of int_of rest) (\<lambda>formatted_data.
       Inr (\<lparr>d_date = date, d_open = op, d_high = hi, d_low = lo, d_close = cl,
             d_volume = vol\<rparr> # formatted_data)))))))"

text \<open>
  The result is the pair of the messages printed and the value returned (or the
  exception raised).
\<close>

definition API_parse_daily_time_series ::
  "('f json \<Rightarrow> py_error + 'f) \<Rightarrow> ('f json \<Rightarrow> py_error + int) \<Rightarrow>
   'f py_dict \<Rightarrow> string list \<times> (py_error + 'f daily_record list)" where
  "API_parse_daily_time_series float_of int_of data =
     (case (if data = [] then None else map_of data ''Time Series (Daily)'') of
        None \<Rightarrow> ([''No hay datos de serie temporal para analizar.''], Inr [])
      | Some time_series \<Rightarrow>
          ([], bind (items time_series) (\<lambda>its.
               bind (API_format_daily float_of int_of its) (\<lambda>formatted_data.
                 Inr (sort_reverse d_date formatted_data)))))"

fun API_format_adjusted ::
  "('f json \<Rightarrow> py_error + 'f) \<Rightarrow> ('f json \<Rightarrow> py_error + int) \<Rightarrow>
   (string \<times> 'f json) list \<Rightarrow> py_error + 'f adjusted_record list" where
  "API_format_adjusted float_of int_of [] = Inr []"
| "API_format_adjusted float_of int_of ((date, values) # rest) =
     bind (bind (subscript values ''1. open'') float_of) (\<lambda>op.
     bind (bind (subscript values ''2. high'') float_of) (\<lambda>hi.
     bind (bind (subscript values ''3. low'') float_of) (\<lambda>lo.
     bind (bind (subscript values ''4. close'') float_of) (\<lambda>cl.
     bind (bind (subscript values ''5. adjusted close'') float_of) (\<lambda>adj.
     bind (bind (subscript values ''6. volume'') int_of) (\<lambda>vol.
     bind (bind (subscript values ''7. dividend amount'') float_of) (\<lambda>dv.
     bind (bind (subscript values ''8. split coefficient'') float_of) (\<lambda>sp.
     bind (API_format_adjusted float_of int_of rest) (\<lambda>formatted_data.
       Inr (\<lparr>a_date = date, a_open = op, a_high = hi, a_low = lo, a_close = cl,
             a_adjusted_close = adj, a_volume = vol, a_dividend_amount = dv,
             a_split_coefficient = sp\<rparr> # formatted_data))))))))))"

definition API_parse_daily_adjusted ::
  "('f json \<Rightarrow> py_error + 'f) \<Rightarrow> ('f json \<Rightarrow> py_error + int) \<Rightarrow>
   'f py_dict \<Rightarrow> string list \<times> (py_error + 'f adjusted_record list)" where
  "API_parse_daily_adjusted float_of int_of data =
     (case (if data = [] then None else map_of data ''Time Series (Daily)'') of
        None \<Rightarrow> ([''No hay datos de serie temporal ajustada para analizar.''], Inr [])
      | Some time_series \<Rightarrow>
          ([], bind (items time_series) (\<lambda>its.
               bind (API_format_adjusted float_of int_of its) (\<lambda>formatted_data.
                 Inr (sort_reverse a_date formatted_data)))))"

subsection \<open>The object-oriented version: class AlphaVantageClient\<close>

fun Client_format_daily ::
  "('f json \<Rightarrow> py_error + 'f) \<Rightarrow> ('f json \<Rightarrow> py_error + int) \<Rightarrow>
   (string \<times> 'f json) list \<Rightarrow> py_error + 'f daily_record list" where
  "Client_format_daily float_of int_of [] = Inr []"
| "Client_format_daily float_of int_of ((date, values) # rest) =
     bind (bind (subscript values ''1. open'') float_of) (\<lambda>op.
     bind (bind (subscript values ''2. high'') float_of) (\<lambda>hi.
     bind (bind (subscript values ''3. low'') float_of) (\<lambda>lo.
     bind (bind (subscript values ''4. close'') float_of) (\<lambda>cl.
     bind (bind (subscript values ''5. volume'') int_of) (\<lambda>vol.
     bind (Client_format_daily float_of int_of rest) (\<lambda>formatted_data.
       Inr (\<lparr>d_date = date, d_open = op, d_high = hi, d_low = lo, d_close = cl,
             d_volume = vol\<rparr> # formatted_data)))))))"

text \<open>Here the message goes to the module's logger, at level error.\<close>

definition Client_parse_daily_time_series ::
  "('f json \<Rightarrow> py_error + 'f) \<Rightarrow> ('f json \<Rightarrow> py_error + int) \<Rightarrow>
   'f py_dict \<Rightarrow> string list \<times> (py_error + 'f daily_record list)" where
  "Client_parse_daily_time_series float_of int_of data =
     (case (if data = [] then None else map_of data ''Time Series (Daily)'') of
        None \<Rightarrow> ([''No hay datos de serie temporal para analizar''], Inr [])
      | Some time_series \<Rightarrow>
          ([], bind (items time_series) (\<lambda>its.
               bind (Client_format_daily float_of int_of its) (\<lambda>formatted_data.
                 Inr (sort_reverse d_date formatted_data)))))"

fun Client_format_adjusted ::
  "('f json \<Rightarrow> py_error + 'f) \<Rightarrow> ('f json \<Rightarrow> py_error + int) \<Rightarrow>
   (string \<times> 'f json) list \<Rightarrow> py_error + 'f adjusted_record list" where
  "Client_format_adjusted float_of int_of [] = Inr []"
| "Client_format_adjusted float_of int_of ((date, values) # rest) =
     bind (bind (subscript values ''1. open'') float_of) (\<lambda>op.
     bind (bind (subscript values ''2. high'') float_of) (\<lambda>hi.
     bind (bind (subscript values ''3. low'') float_of) (\<lambda>lo.
     bind (bind (subscript values ''4. close'') float_of) (\<lambda>cl.
     bind (bind (subscript values ''5. adjusted close'') float_of) (\<lambda>adj.
     bind (bind (subscript values ''6. volume'') int_of) (\<lambda>vol.
     bind (bind (subscript values ''7. dividend amount'') float_of) (\<lambda>dv.
     bind (bind (subscript values ''8. split coefficient'') float_of) (\<lambda>sp.
     bind (Client_format_adjusted float_of int_of rest) (\<lambda>formatted_data.
       Inr (\<lparr>a_date = date, a_open = op, a_high = hi, a_low = lo, a_close = cl,
             a_adjusted_close = adj, a_volume = vol, a_dividend_amount = dv,
             a_split_coefficient = sp\<rparr> # formatted_data))))))))))"

definition Client_parse_daily_adjusted ::
  "('f json \<Rightarrow> py_error + 'f) \<Rightarrow> ('f json \<Rightarrow> py_error + int) \<Rightarrow>
   'f py_dict \<Rightarrow> string list \<times> (py_error + 'f adjusted_record list)" where
  "Client_parse_daily_adjusted float_of int_of data =
     (case (if data = [] then None else map_of data ''Time Series (Daily)'') of
        None \<Rightarrow> ([''No hay datos de serie temporal ajustada para analizar''], Inr [])
      | Some time_series \<Rightarrow>
          ([], bind (items time_series) (\<lambda>its.
               bind (Client_format_adjusted float_of int_of its) (\<lambda>formatted_data.
                 Inr (sort_reverse a_date formatted_data)))))"

section \<open>Time, HTTP and the rate limiter\<close>

text \<open>
  The world outside the program: the clock that \<open>time.time()\<close> reads, the arguments of
  the calls of \<open>time.sleep\<close>, the HTTP requests sent (when, and with which parameters), and
  what the server answers to the n-th request and how long that takes. Time is a real
  number of seconds; the rounding of floating-point timestamps is not modelled.
\<close>

datatype 'f http_result =
    RequestFailed
  | InvalidJson
  | JsonBody "'f py_dict"

record 'f world =
  clock :: real
  slept :: "real list"
  requested :: "(real \<times> (string \<times> string) list) list"
  responses :: "nat \<Rightarrow> 'f http_result"
  latency :: "nat \<Rightarrow> real"

text \<open>\<open>time.sleep(secs)\<close> returns when \<open>secs\<close> seconds have passed.\<close>

definition time_sleep :: "real \<Rightarrow> 'f world \<Rightarrow> 'f world" where
  "time_sleep secs w = w\<lparr>clock := clock w + secs, slept := slept w @ [secs]\<rparr>"

text \<open>
  \<open>requests.get(url, params)\<close>, \<open>raise_for_status()\<close> and \<open>response.json()\<close> together: the
  request fails, or its body is not JSON, or it is a JSON object.
\<close>

definition requests_get ::
  "(string \<times> string) list \<Rightarrow> 'f world \<Rightarrow> 'f http_result \<times> 'f world" where
  "requests_get params w =
     (let n = length (requested w)
      in (responses w n,
          w\<lparr>requested := requested w @ [(clock w, params)], clock := clock w + latency w n\<rparr>))"

text \<open>The attributes that both API classes set in \<open>__init__\<close>.\<close>

record api_client =
  api_key :: string
  base_url :: string
  last_call_timestamp :: real
  min_call_interval :: real

text \<open>\<open>x or y\<close> on strings, with \<open>None\<close> for a missing argument.\<close>

definition str_or :: "string option \<Rightarrow> string \<Rightarrow> string" where
  "str_or x y = (case x of None \<Rightarrow> y | Some s \<Rightarrow> if s = [] then y else s)"

definition API_init :: "string \<Rightarrow> string option \<Rightarrow> api_client" where
  "API_init API_KEY key =
     \<lparr>api_key = str_or key API_KEY, base_url = ''https://www.alphavantage.co/query'',
      last_call_timestamp = 0, min_call_interval = 12\<rparr>"

text \<open>\<open>AlphaVantageAPI._respect_rate_limit\<close> of the commented version.\<close>

definition respect_rate_limit :: "api_client \<Rightarrow> 'f world \<Rightarrow> api_client \<times> 'f world" where
  "respect_rate_limit self w =
     (let current_time = clock w;
          time_since_last_call = current_time - last_call_timestamp self;
          w' = (if time_since_last_call < min_call_interval self
                then time_sleep (min_call_interval self - time_since_last_call) w
                else w)
      in (self\<lparr>last_call_timestamp := clock w'\<rparr>, w'))"

text \<open>\<open>AlphaVantageClient.handle_rate_limit\<close> of the object-oriented version.\<close>

definition handle_rate_limit :: "api_client \<Rightarrow> 'f world \<Rightarrow> api_client \<times> 'f world" where
  "handle_rate_limit self w =
     (let current_time = clock w;
          time_since_last_call = current_time - last_call_timestamp self;
          w' = (if time_since_last_call < min_call_interval self
                then time_sleep (min_call_interval self - time_since_last_call) w
                else w)
      in (self\<lparr>last_call_timestamp := clock w'\<rparr>, w'))"

text \<open>\<open>needle in hay\<close> on strings, and \<open>key in value\<close> on a decoded JSON value.\<close>

fun startswith :: "string \<Rightarrow> string \<Rightarrow> bool" where
  "startswith hay [] = True"
| "startswith [] (c # cs) = False"
| "startswith (h # hs) (c # cs) = (h = c \<and> startswith hs cs)"

fun str_contains :: "string \<Rightarrow> string \<Rightarrow> bool" where
  "str_contains [] needle = (needle = [])"
| "str_contains (h # hs) needle = (startswith (h # hs) needle \<or> str_contains hs needle)"

fun py_in :: "string \<Rightarrow> 'f json \<Rightarrow> py_error + bool" where
  "py_in k (JStr s) = Inr (str_contains s k)"
| "py_in k (JList xs) = Inr (JStr k \<in> set xs)"
| "py_in k (JDict kvs) = Inr (k \<in> fst ` set kvs)"
| "py_in k _ = Inl TypeError"

text \<open>The test \<open>'Note' in data and 'call frequency' in data['Note']\<close>.\<close>

definition call_frequency_note :: "'f py_dict \<Rightarrow> py_error + bool" where
  "call_frequency_note data =
     (case map_of data ''Note'' of None \<Rightarrow> Inr False | Some note \<Rightarrow> py_in ''call frequency'' note)"

text \<open>
  \<open>AlphaVantageClient.get\<close>: an error message of the API and a failed request are raised
  to the caller; a rate-limit note is only logged, and the data returned.
\<close>

definition Client_get ::
  "api_client \<Rightarrow> (string \<times> string) list \<Rightarrow> 'f world \<Rightarrow>
   (py_error + 'f py_dict) \<times> api_client \<times> 'f world" where
  "Client_get self params w =
     (case handle_rate_limit self w of (self1, w1) \<Rightarrow>
      case requests_get (params @ [(''apikey'', api_key self1)]) w1 of (resp, w2) \<Rightarrow>
        ((case resp of
            RequestFailed \<Rightarrow> Inl RequestException
          | InvalidJson \<Rightarrow> Inl JSONDecodeError
          | JsonBody data \<Rightarrow>
              if map_of data ''Error Message'' \<noteq> None then Inl AlphaVantageError
              else bind (call_frequency_note data) (\<lambda>warned. Inr data)),
         self1, w2))"

definition Client_get_daily_time_series ::
  "api_client \<Rightarrow> string \<Rightarrow> string \<Rightarrow> 'f world \<Rightarrow>
   (py_error + 'f py_dict) \<times> api_client \<times> 'f world" where
  "Client_get_daily_time_series self symbol output_size w =
     Client_get self
       [(''function'', ''TIME_SERIES_DAILY''), (''symbol'', symbol), (''outputsize'', output_size)] w"

definition Client_get_daily_adjusted ::
  "api_client \<Rightarrow> string \<Rightarrow> string \<Rightarrow> 'f world \<Rightarrow>
   (py_error + 'f py_dict) \<times> api_client \<times> 'f world" where
  "Client_get_daily_adjusted self symbol output_size w =
     Client_get self
       [(''function'', ''TIME_SERIES_DAILY_ADJUSTED''), (''symbol'', symbol),
        (''outputsize'', output_size)] w"



section \<open>The retry loop of the downloader\<close>

text \<open>
  \<open>StockDataDownloader.download_symbol_data\<close> of the commented version. What the method
  reads from outside is an environment: the answers of the metadata manager (each of its
  methods catches its own exceptions), today's date as a day number, and for the k-th
  attempt what the call of the API object returned or raised and whether saving the file
  raised. What the method does outside is a trace: the API calls, the arguments of
  \<open>time.sleep\<close>, the download records added, the status updates and the files saved.
\<close>

datatype py_exception = Exception py_error | OSError

record 'f download_env =
  symbol_ids :: "string \<rightharpoonup> int"
  last_download_end :: "int \<rightharpoonup> int option"
  today :: int
  new_download_id :: "int option"
  api_function :: string
  api_result :: "nat \<Rightarrow> py_error + 'f py_dict option"
  save_raises :: "nat \<Rightarrow> bool"

record 'f download_trace =
  api_calls :: "(string \<times> string) list"
  waits :: "nat list"
  download_records :: "(int \<times> int option \<times> int \<times> string) list"
  status_updates :: "(int \<times> string) list"
  saved :: "'f py_dict list"

definition max_retries :: nat where
  "max_retries = 3"

text \<open>
  The body of \<open>try\<close> in one attempt: it raises, or reaches \<open>continue\<close> (a rate-limit note
  before the last attempt), or reaches \<open>return download_id, data, True\<close>.
\<close>

datatype 'f attempt = Raised py_exception | Continue | Completed "'f py_dict"

definition try_body :: "'f download_env \<Rightarrow> nat \<Rightarrow> 'f attempt" where
  "try_body env attempt =
     (case api_result env attempt of
        Inl e \<Rightarrow> Raised (Exception e)
      | Inr None \<Rightarrow> Raised (Exception NoDataError)
      | Inr (Some data) \<Rightarrow>
          if data = [] then Raised (Exception NoDataError)
          else if map_of data ''Error Message'' \<noteq> None then Raised (Exception AlphaVantageError)
          else (case call_frequency_note data of
                  Inl e \<Rightarrow> Raised (Exception e)
                | Inr limited \<Rightarrow>
                    if limited \<and> attempt < max_retries then Continue
                    else if save_raises env attempt then Raised OSError
                    else Completed data))"

text \<open>
  The loop \<open>for attempt in range(1, max_retries + 1)\<close>, from the attempt given. A loop
  that ran to its end would leave the method without a \<open>return\<close>, the result \<open>None\<close>.
\<close>

function retry_loop ::
  "'f download_env \<Rightarrow> string \<Rightarrow> int \<Rightarrow> nat \<Rightarrow> nat \<Rightarrow> 'f download_trace \<Rightarrow>
   (int option \<times> 'f py_dict option \<times> bool) option \<times> 'f download_trace" where
  "retry_loop env symbol_ticker download_id attempt retry_delay t =
     (if max_retries < attempt then (None, t)
      else
        (let t1 = t\<lparr>api_calls := api_calls t @
                      [(if api_function env = ''TIME_SERIES_DAILY'' then ''get_daily_time_series''
                        else ''get_daily_adjusted'', symbol_ticker)]\<rparr>
         in case try_body env attempt of
              Continue \<Rightarrow>
                retry_loop env symbol_ticker download_id (attempt + 1) (retry_delay * 2)
                  (t1\<lparr>waits := waits t1 @ [retry_delay]\<rparr>)
            | Completed data \<Rightarrow>
                (Some (Some download_id, Some data, True),
                 t1\<lparr>saved := saved t1 @ [data],
                    status_updates := status_updates t1 @ [(download_id, ''Completed'')]\<rparr>)
            | Raised e \<Rightarrow>
                if attempt < max_retries
                then retry_loop env symbol_ticker download_id (attempt + 1) (retry_delay * 2)
                       (t1\<lparr>waits := waits t1 @ [retry_delay]\<rparr>)
                else (Some (Some download_id, None, False),
                      t1\<lparr>status_updates := status_updates t1 @ [(download_id, ''Failed'')]\<rparr>)))"
  by pat_completeness auto
termination
  by (relation "measure (\<lambda>(env, s, d, attempt, r, t). Suc max_retries - attempt)") auto

definition download_symbol_data ::
  "'f download_env \<Rightarrow> string \<Rightarrow> 'f download_trace \<Rightarrow>
   (int option \<times> 'f py_dict option \<times> bool) option \<times> 'f download_trace" where
  "download_symbol_data env symbol_ticker t =
     (case symbol_ids env symbol_ticker of
        None \<Rightarrow> (Some (None, None, False), t)
      | Some symbol_id \<Rightarrow>
          (let end_date = today env;
               start_date = (case last_download_end env symbol_id of
                               Some (Some last_end) \<Rightarrow> Some (last_end + 1)
                             | _ \<Rightarrow> None)
           in if (case start_date of Some s \<Rightarrow> end_date < s | None \<Rightarrow> False)
              then (Some (None, None, True), t)
              else
                (let t1 = t\<lparr>download_records := download_records t @
                              [(symbol_id, start_date, end_date, ''Pending'')]\<rparr>
                 in case new_download_id env of
                      None \<Rightarrow> (Some (None, None, False), t1)
                    | Some download_id \<Rightarrow>
                        if download_id = 0 then (Some (None, None, False), t1)
                        else retry_loop env symbol_ticker download_id 1 60 t1)))"

section \<open>The database\<close>

text \<open>
  The table of stock prices as a database connection sees it. A row is the set of values
  bound to the placeholders of the statement that inserted it. \<open>committed\<close> holds the
  rows every connection sees, \<open>working\<close> the rows as the open transaction of this
  connection sees them, and \<open>executed\<close> every statement passed to the driver, with the
  parameter sets passed beside it. Whether the table takes a row (its keys and
  constraints) is a parameter \<open>accepts\<close> of the operations.
\<close>

datatype 'f sql_value =
    SqlNull
  | SqlInt int
  | SqlFloat 'f
  | SqlText string
  | SqlDateTime string string

datatype 'f sql_params =
    Positional "'f sql_value list"
  | Named "(string \<times> 'f sql_value) list"

record 'f database =
  committed :: "'f sql_params list"
  working :: "'f sql_params list"
  executed :: "(string \<times> 'f sql_params list) list"

definition commit :: "'f database \<Rightarrow> 'f database" where
  "commit db = db\<lparr>committed := working db\<rparr>"

definition rollback :: "'f database \<Rightarrow> 'f database" where
  "rollback db = db\<lparr>working := committed db\<rparr>"

text \<open>
  The rows of one statement are inserted one after the other; the first row that the
  table refuses raises, and leaves the rows before it in the open transaction.
\<close>

fun insert_rows ::
  "('f sql_params list \<Rightarrow> 'f sql_params \<Rightarrow> bool) \<Rightarrow> 'f sql_params list \<Rightarrow> 'f database \<Rightarrow>
   py_error option \<times> 'f database" where
  "insert_rows accepts [] db = (None, db)"
| "insert_rows accepts (r # rs) db =
     (if accepts (working db) r
      then insert_rows accepts rs (db\<lparr>working := working db @ [r]\<rparr>)
      else (Some DatabaseError, db))"

text \<open>\<open>cursor.executemany(query, batch)\<close>, and \<open>execute\<close> with one parameter set.\<close>

definition executemany ::
  "('f sql_params list \<Rightarrow> 'f sql_params \<Rightarrow> bool) \<Rightarrow> string \<Rightarrow> 'f sql_params list \<Rightarrow>
   'f database \<Rightarrow> py_error option \<times> 'f database" where
  "executemany accepts query batch db =
     insert_rows accepts batch (db\<lparr>executed := executed db @ [(query, batch)]\<rparr>)"

definition execute ::
  "('f sql_params list \<Rightarrow> 'f sql_params \<Rightarrow> bool) \<Rightarrow> string \<Rightarrow> 'f sql_params \<Rightarrow>
   'f database \<Rightarrow> py_error option \<times> 'f database" where
  "execute accepts query params db = executemany accepts query [params] db"

section \<open>The batch insert\<close>

text \<open>
  \<open>StockDataStorage.store_stock_data\<close> of the commented version. An element of
  \<open>data_list\<close> is the dict that \<open>process_json_file\<close> builds, with its seven keys;
  \<open>metadata\<close> gives the \<open>SymbolID\<close> that \<open>get_symbol_by_ticker\<close> finds for a ticker.
\<close>

record 'f price_item =
  i_date :: string
  i_open :: 'f
  i_high :: 'f
  i_low :: 'f
  i_close :: 'f
  i_adjusted_close :: 'f
  i_volume :: int

definition StockPrices_query :: string where
  "StockPrices_query =
     ''\<newline>                INSERT INTO AVdata.StockPrices \<newline>'' @
     ''                (SymbolID, Date, Open, High, Low, Close, AdjustedClose, Volume, DownloadID)\<newline>'' @
     ''                VALUES (?, ?, ?, ?, ?, ?, ?, ?, ?)\<newline>                ''"

definition values_tuple :: "int \<Rightarrow> int \<Rightarrow> 'f price_item \<Rightarrow> 'f sql_params" where
  "values_tuple symbol_id download_id item =
     Positional [SqlInt symbol_id, SqlText (i_date item), SqlFloat (i_open item),
                 SqlFloat (i_high item), SqlFloat (i_low item), SqlFloat (i_close item),
                 SqlFloat (i_adjusted_close item), SqlInt (i_volume item), SqlInt download_id]"

text \<open>
  The loop \<open>for i in range(0, len(values_list), batch_size)\<close> inside \<open>try\<close>, from the
  index \<open>i\<close>: it returns the exception raised, or the count at the end of the loop.
  \<open>range\<close> raises on a step of zero.
\<close>

function store_batches ::
  "('f sql_params list \<Rightarrow> 'f sql_params \<Rightarrow> bool) \<Rightarrow> nat \<Rightarrow> 'f sql_params list \<Rightarrow> nat \<Rightarrow> nat \<Rightarrow>
   'f database \<Rightarrow> (py_error + nat) \<times> 'f database" where
  "store_batches accepts batch_size values_list i total_inserted db =
     (if batch_size = 0 then (Inl ValueError, db)
      else if i < length values_list then
        (let batch = take batch_size (drop i values_list)
         in case executemany accepts StockPrices_query batch db of
              (Some e, db1) \<Rightarrow> (Inl e, db1)
            | (None, db1) \<Rightarrow>
                store_batches accepts batch_size values_list (i + batch_size)
                  (total_inserted + length batch) (commit db1))
      else (Inr total_inserted, db))"
  by pat_completeness auto
termination
  by (relation "measure (\<lambda>(a, batch_size, values_list, i, n, db). length values_list - i)") auto

definition batch_size :: nat where
  "batch_size = 1000"

definition store_stock_data ::
  "('f sql_params list \<Rightarrow> 'f sql_params \<Rightarrow> bool) \<Rightarrow> (string \<rightharpoonup> int) \<Rightarrow> string \<Rightarrow>
   'f price_item list \<Rightarrow> int \<Rightarrow> 'f database \<Rightarrow> nat \<times> 'f database" where
  "store_stock_data accepts metadata symbol data_list download_id db =
     (if data_list = [] then (0, db)
      else case metadata symbol of
             None \<Rightarrow> (0, db)
           | Some symbol_id \<Rightarrow>
               (let values_list = map (values_tuple symbol_id download_id) data_list
                in case store_batches accepts batch_size values_list 0 0 db of
                     (Inr total_inserted, db1) \<Rightarrow> (total_inserted, db1)
                   | (Inl e, db1) \<Rightarrow> (0, rollback db1)))"


section \<open>The script Downloader.py\<close>

text \<open>
  The body of the loop over the symbols: every row of the history is inserted with
  \<open>cursor.execute(insert_sql, symbol_id, row['fecha'], ...)\<close>, then the transaction is
  committed. An exception leaves the body before the commit, without a rollback.
\<close>

record 'f historico_row =
  fecha :: "'f sql_value"
  apertura :: 'f
  alto :: 'f
  bajo :: 'f
  cierre :: 'f
  volumen :: int

definition Downloader_insert_sql :: string where
  "Downloader_insert_sql =
     ''\<newline>    INSERT INTO [AVData].[StockPrices] \<newline>'' @
     ''    ([SymbolId], [Date], [Open], [High], [Low], [Close], [Volume], [CreatedDate])\<newline>'' @
     ''    VALUES (?, ?, ?, ?, ?, ?, ?, getdate())\<newline>''"

fun Downloader_insert_loop ::
  "('f sql_params list \<Rightarrow> 'f sql_params \<Rightarrow> bool) \<Rightarrow> int \<Rightarrow> 'f historico_row list \<Rightarrow>
   'f database \<Rightarrow> py_error option \<times> 'f database" where
  "Downloader_insert_loop accepts symbol_id [] db = (None, db)"
| "Downloader_insert_loop accepts symbol_id (row # rest) db =
     (case execute accepts Downloader_insert_sql
             (Positional [SqlInt symbol_id, fecha row, SqlFloat (apertura row),
                          SqlFloat (alto row), SqlFloat (bajo row), SqlFloat (cierre row),
                          SqlInt (volumen row)]) db of
        (Some e, db1) \<Rightarrow> (Some e, db1)
      | (None, db1) \<Rightarrow> Downloader_insert_loop accepts symbol_id rest db1)"

definition Downloader_symbol ::
  "('f sql_params list \<Rightarrow> 'f sql_params \<Rightarrow> bool) \<Rightarrow> int \<Rightarrow> 'f historico_row list \<Rightarrow>
   'f database \<Rightarrow> 'f database" where
  "Downloader_symbol accepts symbol_id df_historico db =
     (case Downloader_insert_loop accepts symbol_id df_historico db of
        (Some e, db1) \<Rightarrow> db1
      | (None, db1) \<Rightarrow> commit db1)"

section \<open>The web form\<close>

text \<open>
  The route \<open>/descargar\<close> of \<open>webapp/app.py\<close>. The request carries three form fields.
  The environment holds what the function reads from outside: \<open>strptime\<close> is
  \<open>datetime.strptime(s, '%Y-%m-%d').strftime('%Y-%m-%d')\<close> (\<open>None\<close> when it raises
  \<open>ValueError\<close>), \<open>connect_raises\<close> whether \<open>conectar_sql_server\<close> raises,
  \<open>symbol_of_id\<close> the answer of the query for the symbol, \<open>yahoo\<close> what
  \<open>descargar_datos_yahoo\<close> returns or raises (a data frame is the list of its records),
  \<open>same_symbol\<close> which rows the condition of the \<open>DELETE\<close> selects, \<open>delete_raises\<close>
  whether the \<open>DELETE\<close> raises, \<open>table_accepts\<close> whether the table takes a row, and
  \<open>int_of_str\<close> the builtin \<open>int\<close> on a string.
\<close>

record form =
  symbol_id :: "string option"
  fecha_inicio :: "string option"
  fecha_fin :: "string option"

record 'f web_env =
  strptime :: "string \<Rightarrow> string option"
  connect_raises :: bool
  symbol_of_id :: "string \<rightharpoonup> string"
  yahoo :: "string \<Rightarrow> string \<Rightarrow> string \<Rightarrow> py_error + (string \<times> 'f sql_value) list list option"
  same_symbol :: "string \<Rightarrow> 'f sql_params \<Rightarrow> bool"
  delete_raises :: bool
  table_accepts :: "'f sql_params list \<Rightarrow> 'f sql_params \<Rightarrow> bool"
  int_of_str :: "string \<Rightarrow> py_error + int"

definition delete_sql :: string where
  "delete_sql = ''DELETE FROM AVData.StockPrices WHERE SymbolID = :symbol_id''"

definition insert_sql :: string where
  "insert_sql =
     ''\<newline>                        INSERT INTO AVData.StockPrices\<newline>'' @
     ''                        (SymbolID, Date, [Open], High, Low, [Close], Volume, CreatedDate)\<newline>'' @
     ''                        VALUES (:symbol_id, :date, :open, :high, :low, :close, :volume, GETDATE())\<newline>'' @
     ''                    ''"

text \<open>\<open>row.get(key)\<close> on a record of the data frame.\<close>

definition row_get :: "(string \<times> 'f sql_value) list \<Rightarrow> string \<Rightarrow> 'f sql_value" where
  "row_get row k = (case map_of row k of None \<Rightarrow> SqlNull | Some v \<Rightarrow> v)"

text \<open>
  The dict \<open>params\<close> of one record. \<open>int(symbol_id)\<close> may raise; a date that is a
  \<open>datetime\<close> is formatted, which keeps its date part.
\<close>

definition insert_params ::
  "'f web_env \<Rightarrow> string \<Rightarrow> (string \<times> 'f sql_value) list \<Rightarrow> py_error + 'f sql_params" where
  "insert_params env sid row =
     bind (int_of_str env sid) (\<lambda>n.
       Inr (Named [(''symbol_id'', SqlInt n),
                   (''date'', (case row_get row ''Date'' of
                                 SqlDateTime d t \<Rightarrow> SqlText d
                               | v \<Rightarrow> v)),
                   (''open'', row_get row ''Open''),
                   (''high'', row_get row ''High''),
                   (''low'', row_get row ''Low''),
                   (''close'', row_get row ''Close''),
                   (''volume'', row_get row ''Volume'')]))"

fun insert_loop ::
  "'f web_env \<Rightarrow> string \<Rightarrow> (string \<times> 'f sql_value) list list \<Rightarrow> 'f database \<Rightarrow>
   py_error option \<times> 'f database" where
  "insert_loop env sid [] db = (None, db)"
| "insert_loop env sid (row # rest) db =
     (case insert_params env sid row of
        Inl e \<Rightarrow> (Some e, db)
      | Inr params \<Rightarrow>
          (case execute (table_accepts env) insert_sql params db of
             (Some e, db1) \<Rightarrow> (Some e, db1)
           | (None, db1) \<Rightarrow> insert_loop env sid rest db1))"

text \<open>\<open>connection.execute(delete_sql, {"symbol_id": symbol_id})\<close>.\<close>

definition execute_delete ::
  "'f web_env \<Rightarrow> string \<Rightarrow> 'f database \<Rightarrow> py_error option \<times> 'f database" where
  "execute_delete env sid db =
     (let db1 = db\<lparr>executed := executed db @ [(delete_sql, [Named [(''symbol_id'', SqlText sid)]])]\<rparr>
      in if delete_raises env then (Some DatabaseError, db1)
         else (None, db1\<lparr>working := filter (\<lambda>r. \<not> same_symbol env sid r) (working db1)\<rparr>))"

text \<open>
  The block \<open>with connection.begin():\<close> on a new connection, which sees the rows
  committed. Its body is one
  \<open>try ... except Exception\<close>: an exception of the \<open>DELETE\<close> or of an \<open>INSERT\<close> is caught
  there and flashed, so the block is always left without an exception, and leaving it so
  commits the transaction. The result is the category of the message flashed and the
  database.
\<close>

definition engine_connect :: "'f database \<Rightarrow> 'f database" where
  "engine_connect db = db\<lparr>working := committed db\<rparr>"

definition delete_and_insert ::
  "'f web_env \<Rightarrow> string \<Rightarrow> (string \<times> 'f sql_value) list list \<Rightarrow> 'f database \<Rightarrow>
   string \<times> 'f database" where
  "delete_and_insert env sid datos_para_insertar db =
     (case execute_delete env sid (engine_connect db) of
        (Some e, db1) \<Rightarrow> (''error'', commit db1)
      | (None, db1) \<Rightarrow>
          (case insert_loop env sid datos_para_insertar db1 of
             (Some e, db2) \<Rightarrow> (''error'', commit db2)
           | (None, db2) \<Rightarrow> (''success'', commit db2)))"

definition descargar :: "'f web_env \<Rightarrow> form \<Rightarrow> 'f database \<Rightarrow> string \<times> 'f database" where
  "descargar env request db =
     (case (symbol_id request, fecha_inicio request, fecha_fin request) of
        (Some sid, Some fecha_inicio_str, Some fecha_fin_str) \<Rightarrow>
          if sid = [] \<or> fecha_inicio_str = [] \<or> fecha_fin_str = [] then (''warning'', db)
          else
            (case strptime env fecha_inicio_str of
               None \<Rightarrow> (''warning'', db)
             | Some inicio \<Rightarrow>
                 (case strptime env fecha_fin_str of
                    None \<Rightarrow> (''warning'', db)
                  | Some fin \<Rightarrow>
                      if fin < inicio then (''warning'', db)
                      else if connect_raises env then (''error'', db)
                      else (case symbol_of_id env sid of
                              None \<Rightarrow> (''error'', db)
                            | Some symbol \<Rightarrow>
                                (case yahoo env symbol inicio fin of
                                   Inl e \<Rightarrow> (''error'', db)
                                 | Inr None \<Rightarrow> (''warning'', db)
                                 | Inr (Some df_historico) \<Rightarrow>
                                     if df_historico = [] then (''warning'', db)
                                     else delete_and_insert env sid df_historico db))))
      | _ \<Rightarrow> (''warning'', db))"

section \<open>Singletons\<close>

text \<open>
  Objects live in a heap: an object is the map of its attributes, at an address. The
  class attribute \<open>Singleton._instances\<close> maps a class to the address of its instance.
  The three classes of the repository that inherit \<open>Singleton\<close> are listed.
\<close>

datatype class_name = AlphaVantageClient | ConfigManager | MetadataManager

datatype py_value =
    PyNone
  | PyStr string
  | PyInt int
  | PyRef nat
  | PyDict "(string \<times> py_value) list"
  | PyConnection

record heap =
  instances :: "class_name \<rightharpoonup> nat"
  objects :: "nat \<rightharpoonup> (string \<rightharpoonup> py_value)"
  next_addr :: nat

definition attrs :: "heap \<Rightarrow> nat \<Rightarrow> (string \<rightharpoonup> py_value)" where
  "attrs h a = (case objects h a of None \<Rightarrow> Map.empty | Some obj \<Rightarrow> obj)"

definition hasattr :: "heap \<Rightarrow> nat \<Rightarrow> string \<Rightarrow> bool" where
  "hasattr h a name = (attrs h a name \<noteq> None)"

definition setattr :: "nat \<Rightarrow> string \<Rightarrow> py_value \<Rightarrow> heap \<Rightarrow> heap" where
  "setattr a name v h = h\<lparr>objects := (objects h)(a \<mapsto> (attrs h a)(name \<mapsto> v))\<rparr>"

text \<open>\<open>object.__new__(cls)\<close>: a new object without attributes.\<close>

definition object_new :: "heap \<Rightarrow> nat \<times> heap" where
  "object_new h =
     (next_addr h, h\<lparr>objects := (objects h)(next_addr h \<mapsto> Map.empty), next_addr := Suc (next_addr h)\<rparr>)"

definition Singleton_new :: "class_name \<Rightarrow> heap \<Rightarrow> nat \<times> heap" where
  "Singleton_new cls h =
     (case instances h cls of
        Some a \<Rightarrow> (a, h)
      | None \<Rightarrow>
          (case object_new h of (a, h1) \<Rightarrow> (a, h1\<lparr>instances := (instances h1)(cls \<mapsto> a)\<rparr>)))"

text \<open>
  The environment of a construction: the process environment after \<open>load_dotenv\<close>, and
  whether \<open>pyodbc.connect\<close> succeeds.
\<close>

record py_env =
  environ :: "string \<rightharpoonup> string"
  connect_ok :: bool

definition getenv :: "py_env \<Rightarrow> string \<Rightarrow> string \<Rightarrow> py_value" where
  "getenv env k dflt = PyStr (case environ env k of None \<Rightarrow> dflt | Some v \<Rightarrow> v)"

text \<open>\<open>ConfigManager.__init__\<close> with \<open>_load_from_env\<close>.\<close>

definition ConfigManager_init :: "py_env \<Rightarrow> nat \<Rightarrow> heap \<Rightarrow> heap" where
  "ConfigManager_init env self h =
     (if hasattr h self ''config'' then h
      else setattr self ''config''
             (PyDict [(''SQL_SERVER'', getenv env ''SQL_SERVER'' ''localhost''),
                      (''SQL_PORT'', getenv env ''SQL_PORT'' ''1433''),
                      (''SQL_USER'', getenv env ''SQL_USER'' ''sa''),
                      (''SQL_PASSWORD'', getenv env ''SQL_PASSWORD'' ''''),
                      (''SQL_DATABASE'', getenv env ''SQL_DATABASE'' ''AlphaVantageDB''),
                      (''ALPHA_VANTAGE_API_KEY'', getenv env ''ALPHA_VANTAGE_API_KEY'' ''''),
                      (''ALPHA_VANTAGE_BASE_URL'',
                         getenv env ''ALPHA_VANTAGE_BASE_URL'' ''https://www.alphavantage.co/query''),
                      (''LOG_LEVEL'', getenv env ''LOG_LEVEL'' ''INFO'')]) h)"

text \<open>
  Calling a class runs \<open>__new__\<close> and then \<open>__init__\<close> on the object that \<open>__new__\<close>
  returned, at every call.
\<close>

definition ConfigManager_call :: "py_env \<Rightarrow> heap \<Rightarrow> nat \<times> heap" where
  "ConfigManager_call env h =
     (case Singleton_new ConfigManager h of (self, h1) \<Rightarrow> (self, ConfigManager_init env self h1))"

text \<open>\<open>ConfigManager.get(key, default)\<close>, that is \<open>self.config.get(key, default)\<close>.\<close>

definition ConfigManager_get :: "heap \<Rightarrow> nat \<Rightarrow> string \<Rightarrow> py_value \<Rightarrow> py_error + py_value" where
  "ConfigManager_get h self k dflt =
     (case attrs h self ''config'' of
        Some (PyDict kvs) \<Rightarrow> Inr (case map_of kvs k of None \<Rightarrow> dflt | Some v \<Rightarrow> v)
      | _ \<Rightarrow> Inl AttributeError)"

text \<open>The truth value of an object, for \<open>api_key or ...\<close> and \<open>database or ...\<close>.\<close>

fun truthy :: "py_value \<Rightarrow> bool" where
  "truthy PyNone = False"
| "truthy (PyStr s) = (s \<noteq> [])"
| "truthy (PyInt n) = (n \<noteq> 0)"
| "truthy (PyDict kvs) = (kvs \<noteq> [])"
| "truthy _ = True"

definition AlphaVantageClient_init ::
  "py_env \<Rightarrow> py_value \<Rightarrow> nat \<Rightarrow> heap \<Rightarrow> py_error + heap" where
  "AlphaVantageClient_init env key self h =
     (if hasattr h self ''api_key'' then Inr h
      else
        (case ConfigManager_call env h of (config, h1) \<Rightarrow>
           (let h2 = setattr self ''config'' (PyRef config) h1
            in bind (if truthy key then Inr key
                     else ConfigManager_get h2 config ''ALPHA_VANTAGE_API_KEY'' (PyStr '''')) (\<lambda>k.
               let h3 = setattr self ''api_key'' k h2
               in bind (ConfigManager_get h3 config ''ALPHA_VANTAGE_BASE_URL''
                          (PyStr ''https://www.alphavantage.co/query'')) (\<lambda>url.
                  Inr (setattr self ''min_call_interval'' (PyInt 12)
                        (setattr self ''last_call_timestamp'' (PyInt 0)
                          (setattr self ''base_url'' url h3))))))))"

text \<open>
  \<open>SQLServerConnector(database)\<close>, an ordinary class: a new object at every call, whose
  \<open>connect\<close> catches its exceptions.
\<close>

definition SQLServerConnector_call :: "py_env \<Rightarrow> py_value \<Rightarrow> heap \<Rightarrow> py_error + nat \<times> heap" where
  "SQLServerConnector_call env database h =
     (case object_new h of (self, h0) \<Rightarrow>
      case ConfigManager_call env h0 of (config, h1) \<Rightarrow>
        (let h2 = setattr self ''config'' (PyRef config) h1
         in bind (ConfigManager_get h2 config ''SQL_SERVER'' (PyStr ''localhost'')) (\<lambda>server.
            bind (ConfigManager_get h2 config ''SQL_PORT'' (PyStr ''1433'')) (\<lambda>port.
            bind (ConfigManager_get h2 config ''SQL_USER'' (PyStr ''sa'')) (\<lambda>user.
            bind (ConfigManager_get h2 config ''SQL_PASSWORD'' (PyStr '''')) (\<lambda>password.
            bind (if truthy database then Inr database
                  else ConfigManager_get h2 config ''SQL_DATABASE'' (PyStr ''AlphaVantageDB'')) (\<lambda>dbname.
            let h3 = setattr self ''database'' dbname
                       (setattr self ''password'' password
                         (setattr self ''user'' user
                           (setattr self ''port'' port
                             (setattr self ''server'' server h2))));
                h4 = setattr self ''cursor'' PyNone (setattr self ''conn'' PyNone h3)
            in Inr (self,
                    if connect_ok env
                    then setattr self ''cursor'' PyConnection (setattr self ''conn'' PyConnection h4)
                    else h4))))))))"

definition MetadataManager_init :: "py_env \<Rightarrow> nat \<Rightarrow> heap \<Rightarrow> py_error + heap" where
  "MetadataManager_init env self h =
     (if hasattr h self ''db'' then Inr h
      else bind (SQLServerConnector_call env PyNone h) (\<lambda>(db, h1).
             Inr (setattr self ''db'' (PyRef db) h1)))"

text \<open>
  \<open>C(...)\<close> for a class \<open>C\<close> that inherits \<open>Singleton\<close>; \<open>key\<close> is the argument
  \<open>api_key\<close>, which only \<open>AlphaVantageClient\<close> takes.
\<close>

definition call_class :: "py_env \<Rightarrow> class_name \<Rightarrow> py_value \<Rightarrow> heap \<Rightarrow> py_error + nat \<times> heap" where
  "call_class env cls key h =
     (case Singleton_new cls h of (self, h1) \<Rightarrow>
        bind (case cls of
                AlphaVantageClient \<Rightarrow> AlphaVantageClient_init env key self h1
              | ConfigManager \<Rightarrow> Inr (ConfigManager_init env self h1)
              | MetadataManager \<Rightarrow> MetadataManager_init env self h1)
             (\<lambda>h2. Inr (self, h2)))"

text \<open>The attribute whose presence makes \<open>__init__\<close> return at once.\<close>

fun guard_attr :: "class_name \<Rightarrow> string" where
  "guard_attr AlphaVantageClient = ''api_key''"
| "guard_attr ConfigManager = ''config''"
| "guard_attr MetadataManager = ''db''"


section \<open>An instance of the builtins, for the examples\<close>

text \<open>
  Every function above takes the builtins \<open>float\<close> and \<open>int\<close> as parameters. The
  examples need one instance: here a float is a real number, a string is converted when
  it is a non-empty string of decimal digits (Python accepts more strings than these),
  and \<open>None\<close>, lists and dicts raise \<open>TypeError\<close> as they do in Python.
\<close>

definition decimal :: "string \<Rightarrow> nat option" where
  "decimal s =
     (if s \<noteq> [] \<and> list_all (\<lambda>c. CHR ''0'' \<le> c \<and> c \<le> CHR ''9'') s
      then Some (foldl (\<lambda>n c. 10 * n + (of_char c - 48)) 0 s)
      else None)"

fun example_int :: "real json \<Rightarrow> py_error + int" where
  "example_int (JInt n) = Inr n"
| "example_int (JBool b) = Inr (if b then 1 else 0)"
| "example_int (JFloat x) = Inr (if 0 \<le> x then \<lfloor>x\<rfloor> else \<lceil>x\<rceil>)"
| "example_int (JStr s) = (case decimal s of None \<Rightarrow> Inl ValueError | Some n \<Rightarrow> Inr (int n))"
| "example_int _ = Inl TypeError"

fun example_float :: "real json \<Rightarrow> py_error + real" where
  "example_float (JInt n) = Inr (of_int n)"
| "example_float (JBool b) = Inr (if b then 1 else 0)"
| "example_float (JFloat x) = Inr x"
| "example_float (JStr s) = (case decimal s of None \<Rightarrow> Inl ValueError | Some n \<Rightarrow> Inr (of_nat n))"
| "example_float _ = Inl TypeError"

section \<open>Well-formed entries of a time series\<close>

text \<open>
  An entry of the time series is well formed when it is a dict that holds the five
  numbered fields and the conversions of their values succeed; a record belongs to an
  entry when it carries the entry's date and the converted values of its fields.
\<close>

definition converts :: "('f json \<Rightarrow> py_error + 'a) \<Rightarrow> 'f json \<Rightarrow> string \<Rightarrow> 'a \<Rightarrow> bool" where
  "converts conv values k x = (bind (subscript values k) conv = Inr x)"

definition record_of ::
  "('f json \<Rightarrow> py_error + 'f) \<Rightarrow> ('f json \<Rightarrow> py_error + int) \<Rightarrow>
   string \<times> 'f json \<Rightarrow> 'f daily_record \<Rightarrow> bool" where
  "record_of float_of int_of entry r =
     (d_date r = fst entry \<and>
      converts float_of (snd entry) ''1. open'' (d_open r) \<and>
      converts float_of (snd entry) ''2. high'' (d_high r) \<and>
      converts float_of (snd entry) ''3. low'' (d_low r) \<and>
      converts float_of (snd entry) ''4. close'' (d_close r) \<and>
      converts int_of (snd entry) ''5. volume'' (d_volume r))"

definition is_value :: "py_error + 'a \<Rightarrow> bool" where
  "is_value r = (case r of Inl e \<Rightarrow> False | Inr x \<Rightarrow> True)"

definition entry_ok ::
  "('f json \<Rightarrow> py_error + 'f) \<Rightarrow> ('f json \<Rightarrow> py_error + int) \<Rightarrow> 'f json \<Rightarrow> bool" where
  "entry_ok float_of int_of values =
     (is_value (bind (subscript values ''1. open'') float_of) \<and>
      is_value (bind (subscript values ''2. high'') float_of) \<and>
      is_value (bind (subscript values ''3. low'') float_of) \<and>
      is_value (bind (subscript values ''4. close'') float_of) \<and>
      is_value (bind (subscript values ''5. volume'') int_of))"


section \<open>Example inputs\<close>

definition example_series :: "(string \<times> real json) list" where
  "example_series =
     [(''2024-01-02'', JDict [(''1. open'', JStr ''10''), (''2. high'', JStr ''12''),
                               (''3. low'', JStr ''9''), (''4. close'', JStr ''11''),
                               (''5. volume'', JStr ''1500'')]),
      (''2024-01-03'', JDict [(''1. open'', JStr ''11''), (''2. high'', JStr ''13''),
                               (''3. low'', JStr ''10''), (''4. close'', JStr ''12''),
                               (''5. volume'', JStr ''1700'')])]"

definition example_data :: "real py_dict" where
  "example_data = [(''Meta Data'', JDict []), (''Time Series (Daily)'', JDict example_series)]"

text \<open>A payload whose only date entry holds none of the fields.\<close>

definition example_bare_entry :: "real py_dict" where
  "example_bare_entry = [(''Time Series (Daily)'', JDict [(''2024-01-02'', JDict [])])]"

definition example_world :: "real world" where
  "example_world =
     \<lparr>clock = 5, slept = [], requested = [], responses = (\<lambda>n. JsonBody example_data),
      latency = (\<lambda>n. 1)\<rparr>"

definition example_client :: api_client where
  "example_client = API_init ''demo'' None"

section \<open>Rate-limit notes\<close>





section \<open>Failed attempts\<close>

text \<open>
  An attempt fails when its \<open>try\<close> body does not reach the \<open>return\<close>: it raises (the API
  call raised or returned nothing, the answer holds an error message, saving raised),
  or it met a rate-limit note before the last attempt.
\<close>

definition attempt_fails :: "'f download_env \<Rightarrow> nat \<Rightarrow> bool" where
  "attempt_fails env attempt =
     (case try_body env attempt of Completed data \<Rightarrow> False | _ \<Rightarrow> True)"

text \<open>
  The method reaches its loop with the download record \<open>download_id\<close> when the symbol
  is known, the last download (if any) ended before today, and the record was added.
\<close>

definition starts_download :: "'f download_env \<Rightarrow> string \<Rightarrow> int \<Rightarrow> bool" where
  "starts_download env symbol_ticker download_id =
     (case symbol_ids env symbol_ticker of
        None \<Rightarrow> False
      | Some sid \<Rightarrow>
          (case last_download_end env sid of
             Some (Some last_end) \<Rightarrow> last_end + 1 \<le> today env
           | _ \<Rightarrow> True) \<and>
          new_download_id env = Some download_id \<and> download_id \<noteq> 0)"

definition example_env :: "real download_env" where
  "example_env =
     \<lparr>symbol_ids = [''AAPL'' \<mapsto> 1], last_download_end = Map.empty, today = 20000,
      new_download_id = Some 7, api_function = ''TIME_SERIES_DAILY'',
      api_result = (\<lambda>k. if k = 2 then Inr None else Inl RequestException),
      save_raises = (\<lambda>k. False)\<rparr>"

definition empty_trace :: "real download_trace" where
  "empty_trace =
     \<lparr>api_calls = [], waits = [], download_records = [], status_updates = [], saved = []\<rparr>"

section \<open>Accepted rows and batches\<close>

text \<open>
  The table takes all the rows of a list, one after the other, each on top of the rows
  before it.
\<close>

fun all_accepted ::
  "('f sql_params list \<Rightarrow> 'f sql_params \<Rightarrow> bool) \<Rightarrow> 'f sql_params list \<Rightarrow> 'f sql_params list \<Rightarrow> bool" where
  "all_accepted accepts table [] = True"
| "all_accepted accepts table (r # rs) = (accepts table r \<and> all_accepted accepts (table @ [r]) rs)"

text \<open>A list cut into consecutive pieces of \<open>n\<close> elements, the last one possibly shorter.\<close>

function chunks :: "nat \<Rightarrow> 'a list \<Rightarrow> 'a list list" where
  "chunks n xs = (if n = 0 \<or> xs = [] then [] else take n xs # chunks n (drop n xs))"
  by pat_completeness auto
termination
  by (relation "measure (\<lambda>(n, xs). length xs)") auto

definition example_item :: "string \<Rightarrow> real price_item" where
  "example_item d =
     \<lparr>i_date = d, i_open = 10, i_high = 12, i_low = 9, i_close = 11, i_adjusted_close = 11,
      i_volume = 1500\<rparr>"

definition empty_database :: "real database" where
  "empty_database = \<lparr>committed = [], working = [], executed = []\<rparr>"

text \<open>A table that refuses the rows of one date, and a table that takes every row.\<close>

definition refuses_date :: "string \<Rightarrow> real sql_params list \<Rightarrow> real sql_params \<Rightarrow> bool" where
  "refuses_date d table r =
     (case r of Positional (s # SqlText d' # vs) \<Rightarrow> d' \<noteq> d | _ \<Rightarrow> True)"

definition accepts_all :: "real sql_params list \<Rightarrow> real sql_params \<Rightarrow> bool" where
  "accepts_all table r = True"

definition example_symbols :: "string \<rightharpoonup> int" where
  "example_symbols = [''AAPL'' \<mapsto> 1]"

definition empty_heap :: heap where
  "empty_heap = \<lparr>instances = Map.empty, objects = Map.empty, next_addr = 0\<rparr>"

definition example_py_env :: py_env where
  "example_py_env = \<lparr>environ = [''ALPHA_VANTAGE_API_KEY'' \<mapsto> ''from-env''], connect_ok = True\<rparr>"

section \<open>An example request to the web form\<close>

text \<open>
  One row is stored for the symbol with id 1. The download brings two records, and the
  table refuses the second one.
\<close>

definition stored_row :: "real sql_params" where
  "stored_row =
     Named [(''symbol_id'', SqlInt 1), (''date'', SqlText ''2023-12-29''), (''open'', SqlFloat 8),
            (''high'', SqlFloat 9), (''low'', SqlFloat 7), (''close'', SqlFloat 8),
            (''volume'', SqlInt 900)]"

definition stored_database :: "real database" where
  "stored_database = \<lparr>committed = [stored_row], working = [stored_row], executed = []\<rparr>"

definition example_download :: "(string \<times> real sql_value) list list" where
  "example_download =
     [[(''Date'', SqlDateTime ''2024-01-02'' ''00:00:00''), (''Open'', SqlFloat 10),
       (''High'', SqlFloat 12), (''Low'', SqlFloat 9), (''Close'', SqlFloat 11),
       (''Volume'', SqlInt 1500)],
      [(''Date'', SqlDateTime ''2024-01-03'' ''00:00:00''), (''Open'', SqlFloat 11),
       (''High'', SqlFloat 13), (''Low'', SqlFloat 10), (''Close'', SqlFloat 12),
       (''Volume'', SqlNull)]]"

definition refuses_null_volume :: "real sql_params list \<Rightarrow> real sql_params \<Rightarrow> bool" where
  "refuses_null_volume table r =
     (case r of Named kvs \<Rightarrow> map_of kvs ''volume'' \<noteq> Some SqlNull | _ \<Rightarrow> True)"

definition example_web_env :: "real web_env" where
  "example_web_env =
     \<lparr>strptime = (\<lambda>s. if length s = 10 then Some s else None),
      connect_raises = False,
      symbol_of_id = [''1'' \<mapsto> ''AAPL''],
      yahoo = (\<lambda>symbol inicio fin. Inr (Some example_download)),
      same_symbol = (\<lambda>sid r. True),
      delete_raises = False,
      table_accepts = refuses_null_volume,
      int_of_str = (\<lambda>s. case decimal s of None \<Rightarrow> Inl ValueError | Some n \<Rightarrow> Inr (int n))\<rparr>"

definition example_request :: form where
  "example_request =
     \<lparr>symbol_id = Some ''1'', fecha_inicio = Some ''2024-01-01'', fecha_fin = Some ''2024-01-31''\<rparr>"

definition example_historico :: "real historico_row list" where
  "example_historico =
     [\<lparr>fecha = SqlDateTime ''2024-01-02'' ''00:00:00'', apertura = 10, alto = 12, bajo = 9,
       cierre = 11, volumen = 1500\<rparr>]"

section \<open>Both versions parse alike\<close>

lemma format_daily_same:
  "API_format_daily float_of int_of its = Client_format_daily float_of int_of its"
  by (induction its) (auto simp: bind_def split: sum.splits)

lemma format_adjusted_same:
  "API_format_adjusted float_of int_of its = Client_format_adjusted float_of int_of its"
  by (induction its) (auto simp: bind_def split: sum.splits)

text \<open>
  C1. The commented version and the object-oriented version parse alike: on every input
  dictionary, \<open>parse_daily_time_series\<close> of the class \<open>AlphaVantageAPI\<close> and of the class
  \<open>AlphaVantageClient\<close> return equal lists (or raise the same exception), and so do the
  two \<open>parse_daily_adjusted\<close>. They differ in where the message goes when there is
  nothing to parse, which is not part of the value returned.
\<close>

theorem parse_versions_agree:
  "snd (API_parse_daily_time_series float_of int_of d) =
     snd (Client_parse_daily_time_series float_of int_of d) \<and>
   snd (API_parse_daily_adjusted float_of int_of d) =
     snd (Client_parse_daily_adjusted float_of int_of d)"
  by (simp add: API_parse_daily_time_series_def Client_parse_daily_time_series_def
      API_parse_daily_adjusted_def Client_parse_daily_adjusted_def
      format_daily_same format_adjusted_same split: option.splits)

section \<open>Normalizing the payload\<close>

lemma bind_Inr: "bind (Inr x) f = f x"
  by (simp add: bind_def)

lemma bind_Inl: "bind (Inl e) f = Inl e"
  by (simp add: bind_def)

lemma sort_reverse_mset: "mset (sort_reverse f xs) = mset xs"
  by (simp add: sort_reverse_def)

lemma sort_reverse_set: "set (sort_reverse f xs) = set xs"
  by (simp add: sort_reverse_def)

lemma sort_reverse_length: "length (sort_reverse f xs) = length xs"
  by (simp add: sort_reverse_def)

lemma sort_reverse_descending: "sorted (rev (map f (sort_reverse f xs)))"
  by (simp add: sort_reverse_def rev_map)

lemma is_value_bind: "is_value m \<Longrightarrow> \<exists>x. m = Inr x"
  by (cases m) (simp_all add: is_value_def)

lemma Client_format_daily_ok:
  "\<forall>e \<in> set its. entry_ok float_of int_of (snd e) \<Longrightarrow>
   \<exists>rs. Client_format_daily float_of int_of its = Inr rs \<and> list_all2 (record_of float_of int_of) its rs"
proof (induction its)
  case Nil
  then show ?case by simp
next
  case (Cons e its)
  obtain date vals where e: "e = (date, vals)" by (cases e)
  from Cons.prems have ok: "entry_ok float_of int_of vals" by (simp add: e)
  from Cons obtain rs where rs: "Client_format_daily float_of int_of its = Inr rs"
    "list_all2 (record_of float_of int_of) its rs" by auto
  from ok obtain x1 x2 x3 x4 x5 where
    "bind (subscript vals ''1. open'') float_of = Inr x1"
    "bind (subscript vals ''2. high'') float_of = Inr x2"
    "bind (subscript vals ''3. low'') float_of = Inr x3"
    "bind (subscript vals ''4. close'') float_of = Inr x4"
    "bind (subscript vals ''5. volume'') int_of = Inr x5"
    unfolding entry_ok_def by (blast dest: is_value_bind)
  note conv = this
  let ?r = "\<lparr>d_date = date, d_open = x1, d_high = x2, d_low = x3, d_close = x4, d_volume = x5\<rparr>"
  have "record_of float_of int_of (date, vals) ?r"
    by (simp add: record_of_def converts_def conv)
  moreover have "Client_format_daily float_of int_of (e # its) = Inr (?r # rs)"
    by (simp add: e conv rs bind_Inr)
  ultimately show ?case
    using rs by (simp add: e)
qed

lemma list_all2_dates:
  "list_all2 (record_of float_of int_of) its rs \<Longrightarrow> map d_date rs = map fst its"
  by (induction its rs rule: list_all2_induct) (simp_all add: record_of_def)

lemma list_all2_each_record:
  "list_all2 R its rs \<Longrightarrow> (\<forall>r \<in> set rs. \<exists>e \<in> set its. R e r) \<and> (\<forall>e \<in> set its. \<exists>r \<in> set rs. R e r)"
  by (induction its rs rule: list_all2_induct) auto


text \<open>
  C6, as the code has it. On a dictionary that is empty or lacks the key
  \<open>'Time Series (Daily)'\<close>, both versions of \<open>parse_daily_time_series\<close> return the
  empty list. On a dictionary that holds under that key a dict of well-formed entries
  (each a dict with the five numbered fields, whose values \<open>float\<close> and \<open>int\<close> convert),
  they return one record per date entry, carrying the date and the converted values,
  sorted by date string in descending order.
\<close>

theorem parse_daily_time_series_normalizes:
  "(data = [] \<or> ''Time Series (Daily)'' \<notin> fst ` set data \<longrightarrow>
      snd (Client_parse_daily_time_series float_of int_of data) = Inr [] \<and>
      snd (API_parse_daily_time_series float_of int_of data) = Inr []) \<and>
   (map_of data ''Time Series (Daily)'' = Some (JDict its) \<and>
    (\<forall>e \<in> set its. entry_ok float_of int_of (snd e)) \<longrightarrow>
      (\<exists>rs. snd (Client_parse_daily_time_series float_of int_of data) = Inr rs \<and>
            snd (API_parse_daily_time_series float_of int_of data) = Inr rs \<and>
            length rs = length its \<and>
            mset (map d_date rs) = mset (map fst its) \<and>
            (\<forall>e \<in> set its. \<exists>r \<in> set rs. record_of float_of int_of e r) \<and>
            (\<forall>r \<in> set rs. \<exists>e \<in> set its. record_of float_of int_of e r) \<and>
            sorted (rev (map d_date rs))))"
proof (intro conjI impI)
  assume "data = [] \<or> ''Time Series (Daily)'' \<notin> fst ` set data"
  then have none: "(if data = [] then None else map_of data ''Time Series (Daily)'') = None"
    by (auto simp: map_of_eq_None_iff)
  show "snd (Client_parse_daily_time_series float_of int_of data) = Inr []"
    by (simp add: Client_parse_daily_time_series_def none)
  show "snd (API_parse_daily_time_series float_of int_of data) = Inr []"
    by (simp add: API_parse_daily_time_series_def none)
next
  assume a: "map_of data ''Time Series (Daily)'' = Some (JDict its) \<and>
    (\<forall>e \<in> set its. entry_ok float_of int_of (snd e))"
  then have some: "(if data = [] then None else map_of data ''Time Series (Daily)'') = Some (JDict its)"
    by auto
  from a obtain fd where fd: "Client_format_daily float_of int_of its = Inr fd"
    "list_all2 (record_of float_of int_of) its fd"
    using Client_format_daily_ok by blast
  let ?rs = "sort_reverse d_date fd"
  have c: "snd (Client_parse_daily_time_series float_of int_of data) = Inr ?rs"
    by (simp add: Client_parse_daily_time_series_def some fd bind_Inr)
  have p: "snd (API_parse_daily_time_series float_of int_of data) = Inr ?rs"
    by (simp add: API_parse_daily_time_series_def some fd bind_Inr format_daily_same)
  have len: "length ?rs = length its"
    using fd(2) by (simp add: sort_reverse_length list_all2_lengthD)
  have "mset (map d_date ?rs) = mset (map d_date fd)"
    by (metis mset_map sort_reverse_mset)
  then have dates: "mset (map d_date ?rs) = mset (map fst its)"
    using list_all2_dates [OF fd(2)] by simp
  have each: "(\<forall>e \<in> set its. \<exists>r \<in> set ?rs. record_of float_of int_of e r) \<and>
      (\<forall>r \<in> set ?rs. \<exists>e \<in> set its. record_of float_of int_of e r)"
    using list_all2_each_record [OF fd(2)] by (simp add: sort_reverse_set)
  show "\<exists>rs. snd (Client_parse_daily_time_series float_of int_of data) = Inr rs \<and>
            snd (API_parse_daily_time_series float_of int_of data) = Inr rs \<and>
            length rs = length its \<and>
            mset (map d_date rs) = mset (map fst its) \<and>
            (\<forall>e \<in> set its. \<exists>r \<in> set rs. record_of float_of int_of e r) \<and>
            (\<forall>r \<in> set rs. \<exists>e \<in> set its. record_of float_of int_of e r) \<and>
            sorted (rev (map d_date rs))"
    using c p len dates each sort_reverse_descending [of d_date fd] by blast
qed

theorem parse_daily_time_series_normalizes_witness:
  "snd (Client_parse_daily_time_series example_float example_int []) = Inr [] \<and>
   (\<exists>rs. snd (Client_parse_daily_time_series example_float example_int example_data) = Inr rs \<and>
         length rs = 2 \<and> sorted (rev (map d_date rs)))"
proof -
  have ok: "map_of example_data ''Time Series (Daily)'' = Some (JDict example_series) \<and>
      (\<forall>e \<in> set example_series. entry_ok example_float example_int (snd e))"
    by (simp add: example_data_def example_series_def entry_ok_def is_value_def bind_def
        decimal_def)
  have len: "length example_series = 2"
    by (simp add: example_series_def)
  show ?thesis
    using parse_daily_time_series_normalizes
        [where data = "[]" and float_of = example_float and int_of = example_int]
      parse_daily_time_series_normalizes
        [where data = example_data and its = example_series and float_of = example_float
           and int_of = example_int] ok len
    by (metis (no_types, lifting))
qed

text \<open>
  C6, as the claim states it, fails: this dictionary contains the key, and parsing it
  raises \<open>KeyError\<close> instead of returning a list.
\<close>

theorem parse_daily_time_series_raises:
  "snd (Client_parse_daily_time_series example_float example_int example_bare_entry) = Inl KeyError"
  by (simp add: Client_parse_daily_time_series_def example_bare_entry_def bind_def)

section \<open>The rate limiter\<close>

lemma handle_rate_limit_timestamp:
  "handle_rate_limit self w = (self1, w1) \<Longrightarrow>
   last_call_timestamp self1 = clock w1 \<and> min_call_interval self1 = min_call_interval self \<and>
   last_call_timestamp self + min_call_interval self \<le> clock w1 \<and> requested w1 = requested w"
  by (auto simp: handle_rate_limit_def time_sleep_def Let_def split: if_splits)

lemma Client_get_requested:
  "Client_get self params w = (r, self1, w1) \<Longrightarrow>
   min_call_interval self1 = min_call_interval self \<and>
   (\<exists>q. requested w1 = requested w @ [(last_call_timestamp self1, q)]) \<and>
   last_call_timestamp self + min_call_interval self \<le> last_call_timestamp self1"
proof -
  assume a: "Client_get self params w = (r, self1, w1)"
  obtain s0 w0 where h: "handle_rate_limit self w = (s0, w0)"
    by (cases "handle_rate_limit self w")
  from handle_rate_limit_timestamp [OF h] a h show ?thesis
    by (auto simp: Client_get_def requests_get_def Let_def)
qed

text \<open>
  C2. The rate limiter of either version sleeps exactly \<open>min_call_interval\<close> minus the
  time elapsed since \<open>last_call_timestamp\<close> when that time is strictly less than
  \<open>min_call_interval\<close>, and does not sleep otherwise; in both cases it then sets
  \<open>last_call_timestamp\<close> to the time it reads after that. Hence two consecutive calls of
  \<open>get\<close> on the client, with the interval of 12 seconds that \<open>__init__\<close> sets, send
  their requests at least 12 seconds apart, whatever else happens between the calls.
\<close>

theorem rate_limiter_spaces_calls:
  "slept (snd (handle_rate_limit self w)) =
     (if clock w - last_call_timestamp self < min_call_interval self
      then slept w @ [min_call_interval self - (clock w - last_call_timestamp self)]
      else slept w) \<and>
   last_call_timestamp (fst (handle_rate_limit self w)) = clock (snd (handle_rate_limit self w)) \<and>
   slept (snd (respect_rate_limit self w)) =
     (if clock w - last_call_timestamp self < min_call_interval self
      then slept w @ [min_call_interval self - (clock w - last_call_timestamp self)]
      else slept w) \<and>
   last_call_timestamp (fst (respect_rate_limit self w)) = clock (snd (respect_rate_limit self w)) \<and>
   (min_call_interval self = 12 \<and> Client_get self pa w = (ra, selfa, wa) \<and>
    requested wa' = requested wa \<and> Client_get selfa pb wa' = (rb, selfb, wb) \<longrightarrow>
      (\<exists>t1 t2 q1 q2. requested wb = requested w @ [(t1, q1), (t2, q2)] \<and> t1 + 12 \<le> t2))"
proof (intro conjI impI)
  assume a: "min_call_interval self = 12 \<and> Client_get self pa w = (ra, selfa, wa) \<and>
    requested wa' = requested wa \<and> Client_get selfa pb wa' = (rb, selfb, wb)"
  from a Client_get_requested [of self pa w ra selfa wa]
  obtain q1 where 1: "min_call_interval selfa = 12"
    "requested wa = requested w @ [(last_call_timestamp selfa, q1)]" by auto
  from a Client_get_requested [of selfa pb wa' rb selfb wb]
  obtain q2 where 2: "requested wb = requested wa' @ [(last_call_timestamp selfb, q2)]"
    "last_call_timestamp selfa + min_call_interval selfa \<le> last_call_timestamp selfb" by auto
  from a 1 2 have "requested wb =
      requested w @ [(last_call_timestamp selfa, q1), (last_call_timestamp selfb, q2)] \<and>
      last_call_timestamp selfa + 12 \<le> last_call_timestamp selfb"
    by simp
  then show "\<exists>t1 t2 q1 q2. requested wb = requested w @ [(t1, q1), (t2, q2)] \<and> t1 + 12 \<le> t2"
    by blast
qed (simp_all add: handle_rate_limit_def respect_rate_limit_def time_sleep_def Let_def)

theorem rate_limiter_spaces_calls_witness:
  "slept (snd (handle_rate_limit example_client example_world)) = [7] \<and>
   clock (snd (handle_rate_limit example_client example_world)) = 12 \<and>
   (\<exists>t1 t2 q1 q2.
      requested (snd (snd (Client_get (fst (snd (Client_get example_client [] example_world))) []
                             (snd (snd (Client_get example_client [] example_world)))))) =
        [(t1, q1), (t2, q2)] \<and> t1 + 12 \<le> t2)"
proof -
  let ?g1 = "Client_get example_client [] example_world"
  let ?g2 = "Client_get (fst (snd ?g1)) [] (snd (snd ?g1))"
  have i: "min_call_interval example_client = 12"
    by (simp add: example_client_def API_init_def)
  have e: "clock example_world - last_call_timestamp example_client < min_call_interval example_client"
    "slept example_world = []" "requested example_world = []"
    "min_call_interval example_client - (clock example_world - last_call_timestamp example_client) = 7"
    by (simp_all add: example_client_def API_init_def example_world_def)
  have c: "clock (snd (handle_rate_limit example_client example_world)) = 12"
    by (simp add: handle_rate_limit_def time_sleep_def Let_def example_client_def API_init_def
        example_world_def)
  have g1: "?g1 = (fst ?g1, fst (snd ?g1), snd (snd ?g1))" and g2: "?g2 = (fst ?g2, fst (snd ?g2), snd (snd ?g2))"
    by simp_all
  show ?thesis
    using rate_limiter_spaces_calls
      [where self = example_client and w = example_world and pa = "[]" and pb = "[]"
         and ra = "fst ?g1" and selfa = "fst (snd ?g1)" and wa = "snd (snd ?g1)"
         and wa' = "snd (snd ?g1)" and rb = "fst ?g2" and selfb = "fst (snd ?g2)"
         and wb = "snd (snd ?g2)"]
      i e c g1 g2
    by (metis (no_types, lifting) append_Nil)
qed

section \<open>The retry loop is bounded\<close>

declare retry_loop.simps [simp del]

lemma try_body_Continue: "try_body env a = Continue \<Longrightarrow> a < max_retries"
  by (auto simp: try_body_def split: sum.splits option.splits if_splits)

lemma backoff_waits:
  "map (\<lambda>k. 60 * 2 ^ (k - 1)) [1..<1] = ([] :: nat list)"
  "map (\<lambda>k. 60 * 2 ^ (k - 1)) [1..<2] = ([60] :: nat list)"
  "map (\<lambda>k. 60 * 2 ^ (k - 1)) [1..<3] = ([60, 120] :: nat list)"
  by (simp_all add: upt_rec)

lemma retry_loop_past_end: "retry_loop env ticker did 4 d t = (None, t)"
  by (subst retry_loop.simps) (simp add: max_retries_def)

lemma retry_loop_third:
  "retry_loop env ticker did 3 d t =
     (let t1 = t\<lparr>api_calls := api_calls t @
                   [(if api_function env = ''TIME_SERIES_DAILY'' then ''get_daily_time_series''
                     else ''get_daily_adjusted'', ticker)]\<rparr>
      in case try_body env 3 of
           Completed data \<Rightarrow>
             (Some (Some did, Some data, True),
              t1\<lparr>saved := saved t1 @ [data],
                 status_updates := status_updates t1 @ [(did, ''Completed'')]\<rparr>)
         | _ \<Rightarrow> (Some (Some did, None, False),
                 t1\<lparr>status_updates := status_updates t1 @ [(did, ''Failed'')]\<rparr>))"
proof (cases "try_body env 3")
  case Continue
  from try_body_Continue [OF this] show ?thesis by (simp add: max_retries_def)
qed (subst retry_loop.simps, simp add: max_retries_def Let_def)+

lemma retry_loop_before_last:
  "a < 3 \<Longrightarrow> b = a + 1 \<Longrightarrow>
   retry_loop env ticker did a d t =
     (let t1 = t\<lparr>api_calls := api_calls t @
                   [(if api_function env = ''TIME_SERIES_DAILY'' then ''get_daily_time_series''
                     else ''get_daily_adjusted'', ticker)]\<rparr>
      in case try_body env a of
           Completed data \<Rightarrow>
             (Some (Some did, Some data, True),
              t1\<lparr>saved := saved t1 @ [data],
                 status_updates := status_updates t1 @ [(did, ''Completed'')]\<rparr>)
         | _ \<Rightarrow> retry_loop env ticker did b (d * 2) (t1\<lparr>waits := waits t1 @ [d]\<rparr>))"
  by (subst retry_loop.simps) (simp add: max_retries_def Let_def split: attempt.splits)

lemma retry_loop_from_first:
  "\<exists>m. 1 \<le> m \<and> m \<le> 3 \<and>
       length (api_calls (snd (retry_loop env ticker did 1 60 t))) = length (api_calls t) + m \<and>
       waits (snd (retry_loop env ticker did 1 60 t)) =
         waits t @ map (\<lambda>k. 60 * 2 ^ (k - 1)) [1..<m]"
proof -
  let ?r = "retry_loop env ticker did 1 60 t"
  have "(length (api_calls (snd ?r)) = length (api_calls t) + 1 \<and> waits (snd ?r) = waits t @ []) \<or>
        (length (api_calls (snd ?r)) = length (api_calls t) + 2 \<and> waits (snd ?r) = waits t @ [60]) \<or>
        (length (api_calls (snd ?r)) = length (api_calls t) + 3 \<and> waits (snd ?r) = waits t @ [60, 120])"
    by (simp add: retry_loop_before_last [of "Suc 0" 2] retry_loop_before_last [of 2 3] retry_loop_third
        Let_def split: attempt.splits)
  then consider
      (one) "length (api_calls (snd ?r)) = length (api_calls t) + 1"
        "waits (snd ?r) = waits t @ map (\<lambda>k. 60 * 2 ^ (k - 1)) [1..<1]"
    | (two) "length (api_calls (snd ?r)) = length (api_calls t) + 2"
        "waits (snd ?r) = waits t @ map (\<lambda>k. 60 * 2 ^ (k - 1)) [1..<2]"
    | (three) "length (api_calls (snd ?r)) = length (api_calls t) + 3"
        "waits (snd ?r) = waits t @ map (\<lambda>k. 60 * 2 ^ (k - 1)) [1..<3]"
    by (auto simp only: backoff_waits)
  then show ?thesis
  proof cases
    case one
    then show ?thesis by (intro exI [of _ 1]) simp
  next
    case two
    then show ?thesis by (intro exI [of _ 2]) simp
  next
    case three
    then show ?thesis by (intro exI [of _ 3]) simp
  qed
qed

lemma retry_loop_all_fail:
  assumes "attempt_fails env 1" "attempt_fails env 2" "attempt_fails env 3"
  shows "fst (retry_loop env ticker did 1 60 t) = Some (Some did, None, False) \<and>
         status_updates (snd (retry_loop env ticker did 1 60 t)) =
           status_updates t @ [(did, ''Failed'')] \<and>
         length (api_calls (snd (retry_loop env ticker did 1 60 t))) = length (api_calls t) + 3 \<and>
         waits (snd (retry_loop env ticker did 1 60 t)) = waits t @ [60, 120]"
  using assms
  by (simp add: retry_loop_before_last [of "Suc 0" 2] retry_loop_before_last [of 2 3] retry_loop_third
      attempt_fails_def Let_def split: attempt.splits)

lemma download_symbol_data_shape:
  "(api_calls (snd (download_symbol_data env ticker t)) = api_calls t \<and>
    waits (snd (download_symbol_data env ticker t)) = waits t) \<or>
   (\<exists>did r. download_symbol_data env ticker t =
               retry_loop env ticker did 1 60 (t\<lparr>download_records := download_records t @ [r]\<rparr>))"
proof (cases "symbol_ids env ticker")
  case None
  then show ?thesis by (simp add: download_symbol_data_def)
next
  case (Some sid)
  let ?start = "case last_download_end env sid of
      Some (Some last_end) \<Rightarrow> Some (last_end + 1) | _ \<Rightarrow> None"
  let ?t1 = "t\<lparr>download_records := download_records t @ [(sid, ?start, today env, ''Pending'')]\<rparr>"
  show ?thesis
  proof (cases "case ?start of Some s \<Rightarrow> today env < s | None \<Rightarrow> False")
    case True
    with Some show ?thesis by (simp add: download_symbol_data_def Let_def)
  next
    case False
    note go = this
    show ?thesis
    proof (cases "new_download_id env")
      case None
      with Some go show ?thesis by (simp add: download_symbol_data_def Let_def)
    next
      case (Some did)
      show ?thesis
      proof (cases "did = 0")
        case True
        with Some \<open>symbol_ids env ticker = Some sid\<close> go show ?thesis
          by (simp add: download_symbol_data_def Let_def)
      next
        case False
        with Some \<open>symbol_ids env ticker = Some sid\<close> go
        have "download_symbol_data env ticker t = retry_loop env ticker did 1 60 ?t1"
          by (simp add: download_symbol_data_def Let_def)
        then show ?thesis by blast
      qed
    qed
  qed
qed

lemma download_symbol_data_started:
  "starts_download env ticker did \<Longrightarrow>
   \<exists>r. download_symbol_data env ticker t =
         retry_loop env ticker did 1 60 (t\<lparr>download_records := download_records t @ [r]\<rparr>)"
  by (auto simp: starts_download_def download_symbol_data_def Let_def split: option.splits)

text \<open>
  C3. \<open>download_symbol_data\<close> calls the API at most \<open>max_retries = 3\<close> times for a
  symbol; the waits between the attempts it makes are 60 and then 120 seconds, the wait
  before the k-th retry being \<open>60 * 2 ^ (k - 1)\<close>; and when it reaches the loop and all
  three attempts fail, it marks the download record \<open>'Failed'\<close> and returns
  \<open>(download_id, None, False)\<close>.
\<close>

theorem download_retries_are_bounded:
  "(\<exists>m \<le> max_retries.
      length (api_calls (snd (download_symbol_data env ticker t))) = length (api_calls t) + m \<and>
      waits (snd (download_symbol_data env ticker t)) =
        waits t @ map (\<lambda>k. 60 * 2 ^ (k - 1)) [1..<m]) \<and>
   (starts_download env ticker did \<and>
    attempt_fails env 1 \<and> attempt_fails env 2 \<and> attempt_fails env 3 \<longrightarrow>
      fst (download_symbol_data env ticker t) = Some (Some did, None, False) \<and>
      status_updates (snd (download_symbol_data env ticker t)) =
        status_updates t @ [(did, ''Failed'')] \<and>
      length (api_calls (snd (download_symbol_data env ticker t))) = length (api_calls t) + 3 \<and>
      waits (snd (download_symbol_data env ticker t)) = waits t @ [60, 120])"
proof (intro conjI impI)
  let ?d = "download_symbol_data env ticker t"
  from download_symbol_data_shape [of env ticker t]
  show "\<exists>m \<le> max_retries.
      length (api_calls (snd ?d)) = length (api_calls t) + m \<and>
      waits (snd ?d) = waits t @ map (\<lambda>k. 60 * 2 ^ (k - 1)) [1..<m]"
  proof
    assume "api_calls (snd ?d) = api_calls t \<and> waits (snd ?d) = waits t"
    then show ?thesis by (intro exI [of _ 0]) simp
  next
    assume "\<exists>did r. ?d =
        retry_loop env ticker did 1 60 (t\<lparr>download_records := download_records t @ [r]\<rparr>)"
    then obtain d1 r where d:
      "?d = retry_loop env ticker d1 1 60 (t\<lparr>download_records := download_records t @ [r]\<rparr>)"
      by blast
    from retry_loop_from_first
      [of env ticker d1 "t\<lparr>download_records := download_records t @ [r]\<rparr>"]
    obtain m where "1 \<le> m" "m \<le> 3"
      "length (api_calls (snd ?d)) = length (api_calls t) + m"
      "waits (snd ?d) = waits t @ map (\<lambda>k. 60 * 2 ^ (k - 1)) [1..<m]"
      unfolding d by auto
    then show ?thesis
      by (intro exI [of _ m]) (simp add: max_retries_def)
  qed
next
  assume a: "starts_download env ticker did \<and>
    attempt_fails env 1 \<and> attempt_fails env 2 \<and> attempt_fails env 3"
  let ?d = "download_symbol_data env ticker t"
  from a download_symbol_data_started [of env ticker did t] obtain r where d:
    "?d = retry_loop env ticker did 1 60 (t\<lparr>download_records := download_records t @ [r]\<rparr>)"
    by blast
  from retry_loop_all_fail
    [of env ticker did "t\<lparr>download_records := download_records t @ [r]\<rparr>"] a
  show "fst ?d = Some (Some did, None, False)"
    and "status_updates (snd ?d) = status_updates t @ [(did, ''Failed'')]"
    and "length (api_calls (snd ?d)) = length (api_calls t) + 3"
    and "waits (snd ?d) = waits t @ [60, 120]"
    unfolding d by simp_all
qed

theorem download_retries_are_bounded_witness:
  "fst (download_symbol_data example_env ''AAPL'' empty_trace) = Some (Some 7, None, False) \<and>
   status_updates (snd (download_symbol_data example_env ''AAPL'' empty_trace)) = [(7, ''Failed'')] \<and>
   length (api_calls (snd (download_symbol_data example_env ''AAPL'' empty_trace))) = 3 \<and>
   waits (snd (download_symbol_data example_env ''AAPL'' empty_trace)) = [60, 120]"
proof -
  have a: "starts_download example_env ''AAPL'' 7 \<and> attempt_fails example_env 1 \<and>
      attempt_fails example_env 2 \<and> attempt_fails example_env 3"
    by (simp add: starts_download_def attempt_fails_def try_body_def example_env_def)
  have e: "status_updates empty_trace = []" "api_calls empty_trace = []" "waits empty_trace = []"
    by (simp_all add: empty_trace_def)
  show ?thesis
    using download_retries_are_bounded
        [where env = example_env and ticker = "''AAPL''" and did = 7 and t = empty_trace,
          THEN conjunct2] a e
    by simp
qed

section \<open>The batch insert\<close>

declare store_batches.simps [simp del]
declare chunks.simps [simp del]

lemma chunks_concat: "0 < n \<Longrightarrow> concat (chunks n xs) = xs"
proof (induction n xs rule: chunks.induct)
  case (1 n xs)
  then show ?case by (subst chunks.simps) auto
qed

lemma chunks_sizes: "b \<in> set (chunks n xs) \<Longrightarrow> b \<noteq> [] \<and> length b \<le> n"
proof (induction n xs rule: chunks.induct)
  case (1 n xs)
  from "1.prems" have "\<not> (n = 0 \<or> xs = [])" and "b = take n xs \<or> b \<in> set (chunks n (drop n xs))"
    by (subst (asm) chunks.simps, simp split: if_splits)+
  with "1.IH" show ?case by auto
qed

lemma all_accepted_append:
  "all_accepted accepts table (xs @ ys) =
     (all_accepted accepts table xs \<and> all_accepted accepts (table @ xs) ys)"
  by (induction xs arbitrary: table) auto

lemma all_accepted_each:
  "(\<And>table r. r \<in> set rs \<Longrightarrow> accepts table r) \<Longrightarrow> all_accepted accepts table rs"
  by (induction rs arbitrary: table) auto

lemma insert_rows_accepted:
  "all_accepted accepts (working db) rs \<Longrightarrow>
   insert_rows accepts rs db = (None, db\<lparr>working := working db @ rs\<rparr>)"
  by (induction rs arbitrary: db) auto

lemma insert_rows_refused:
  "\<not> all_accepted accepts (working db) rs \<Longrightarrow>
   \<exists>db1. insert_rows accepts rs db = (Some DatabaseError, db1) \<and>
         committed db1 = committed db \<and> executed db1 = executed db"
proof (induction rs arbitrary: db)
  case Nil
  then show ?case by simp
next
  case (Cons r rs)
  show ?case
  proof (cases "accepts (working db) r")
    case True
    with Cons.prems
    have "\<not> all_accepted accepts (working (db\<lparr>working := working db @ [r]\<rparr>)) rs"
      by simp
    from Cons.IH [OF this] True show ?thesis by simp
  next
    case False
    then show ?thesis by simp
  qed
qed

lemma executemany_accepted:
  "all_accepted accepts (working db) rs \<Longrightarrow>
   executemany accepts q rs db =
     (None, db\<lparr>working := working db @ rs, executed := executed db @ [(q, rs)]\<rparr>)"
  using insert_rows_accepted [of accepts "db\<lparr>executed := executed db @ [(q, rs)]\<rparr>" rs]
  by (simp add: executemany_def)

lemma executemany_refused:
  "\<not> all_accepted accepts (working db) rs \<Longrightarrow>
   \<exists>db1. executemany accepts q rs db = (Some DatabaseError, db1) \<and> committed db1 = committed db"
  using insert_rows_refused [of accepts "db\<lparr>executed := executed db @ [(q, rs)]\<rparr>" rs]
  by (auto simp: executemany_def)

text \<open>When every row is accepted, the loop commits every batch.\<close>

lemma store_batches_accepted:
  "0 < n \<Longrightarrow> committed db = working db \<Longrightarrow> all_accepted accepts (working db) (drop i vs) \<Longrightarrow>
   store_batches accepts n vs i cnt db =
     (Inr (cnt + (length vs - i)),
      db\<lparr>committed := working db @ drop i vs, working := working db @ drop i vs,
         executed := executed db @ map (Pair StockPrices_query) (chunks n (drop i vs))\<rparr>)"
proof (induction accepts n vs i cnt db rule: store_batches.induct)
  case (1 accepts n vs i cnt db)
  show ?case
  proof (cases "i < length vs")
    case False
    then have "chunks n (drop i vs) = []"
      by (subst chunks.simps) simp
    with False "1.prems" show ?thesis
      by (subst store_batches.simps) simp
  next
    case True
    let ?batch = "take n (drop i vs)"
    have split: "drop i vs = ?batch @ drop (i + n) vs"
      by (metis add.commute append_take_drop_id drop_drop)
    from "1.prems"(3) have "all_accepted accepts (working db) (?batch @ drop (i + n) vs)"
      using split by simp
    then have acc: "all_accepted accepts (working db) ?batch"
      and rest: "all_accepted accepts (working db @ ?batch) (drop (i + n) vs)"
      unfolding all_accepted_append by simp_all
    let ?db1 = "db\<lparr>working := working db @ ?batch,
        executed := executed db @ [(StockPrices_query, ?batch)]\<rparr>"
    have ex: "executemany accepts StockPrices_query ?batch db = (None, ?db1)"
      by (rule executemany_accepted [OF acc])
    have ih: "store_batches accepts n vs (i + n) (cnt + length ?batch) (commit ?db1) =
        (Inr (cnt + length ?batch + (length vs - (i + n))),
         (commit ?db1)\<lparr>committed := working (commit ?db1) @ drop (i + n) vs,
            working := working (commit ?db1) @ drop (i + n) vs,
            executed := executed (commit ?db1) @
              map (Pair StockPrices_query) (chunks n (drop (i + n) vs))\<rparr>)"
      using "1.prems"(1) True rest
      by (intro "1.IH" [OF _ True refl ex [symmetric] refl]) (simp_all add: commit_def)
    have ch: "chunks n (drop i vs) = ?batch # chunks n (drop (i + n) vs)"
      using "1.prems"(1) True
      by (subst chunks.simps) (simp add: add.commute)
    have len: "cnt + length ?batch + (length vs - (i + n)) = cnt + (length vs - i)"
      using True by (simp add: min_def)
    have "store_batches accepts n vs i cnt db =
        store_batches accepts n vs (i + n) (cnt + length ?batch) (commit ?db1)"
      using "1.prems"(1) True by (subst store_batches.simps) (simp add: ex Let_def)
    also note ih
    finally show ?thesis
      using split by (simp add: len ch commit_def)
  qed
qed

lemma store_batches_from_start:
  assumes "0 < n" "vs \<noteq> []" "all_accepted accepts (working db) vs"
  shows "store_batches accepts n vs 0 0 db =
     (Inr (length vs),
      db\<lparr>committed := working db @ vs, working := working db @ vs,
         executed := executed db @ map (Pair StockPrices_query) (chunks n vs)\<rparr>)"
proof -
  let ?batch = "take n vs"
  let ?db1 = "db\<lparr>working := working db @ ?batch,
      executed := executed db @ [(StockPrices_query, ?batch)]\<rparr>"
  from assms(3) have "all_accepted accepts (working db) (?batch @ drop n vs)"
    by simp
  then have acc: "all_accepted accepts (working db) ?batch"
    and rest: "all_accepted accepts (working db @ ?batch) (drop n vs)"
    unfolding all_accepted_append by simp_all
  have ex: "executemany accepts StockPrices_query ?batch db = (None, ?db1)"
    by (rule executemany_accepted [OF acc])
  have "store_batches accepts n vs 0 0 db =
      store_batches accepts n vs n (length ?batch) (commit ?db1)"
    using assms(1,2) by (subst store_batches.simps) (simp add: ex Let_def)
  also have "\<dots> = (Inr (length ?batch + (length vs - n)),
      (commit ?db1)\<lparr>committed := working (commit ?db1) @ drop n vs,
         working := working (commit ?db1) @ drop n vs,
         executed := executed (commit ?db1) @ map (Pair StockPrices_query) (chunks n (drop n vs))\<rparr>)"
    using assms(1) rest by (intro store_batches_accepted) (simp_all add: commit_def)
  finally have r: "store_batches accepts n vs 0 0 db =
      (Inr (length ?batch + (length vs - n)),
       (commit ?db1)\<lparr>committed := working (commit ?db1) @ drop n vs,
          working := working (commit ?db1) @ drop n vs,
          executed := executed (commit ?db1) @ map (Pair StockPrices_query) (chunks n (drop n vs))\<rparr>)" .
  have ch: "chunks n vs = ?batch # chunks n (drop n vs)"
    using assms(1,2) by (subst chunks.simps) simp
  have len: "length ?batch + (length vs - n) = length vs"
    by (simp add: min_def)
  show ?thesis
    unfolding r len ch by (simp add: commit_def)
qed

text \<open>When a batch is refused after j accepted ones, the j batches stay committed.\<close>

lemma refused_batch_exists:
  "\<not> all_accepted accepts table (take n (drop k vs)) \<Longrightarrow> k < length vs"
  by (cases "k < length vs") auto

lemma store_batches_refused:
  "0 < n \<Longrightarrow> all_accepted accepts (working db) (take (j * n) (drop i vs)) \<Longrightarrow>
   \<not> all_accepted accepts (working db @ take (j * n) (drop i vs)) (take n (drop (i + j * n) vs)) \<Longrightarrow>
   \<exists>db1. store_batches accepts n vs i cnt db = (Inl DatabaseError, db1) \<and>
         committed db1 = (if j = 0 then committed db else working db @ take (j * n) (drop i vs))"
proof (induction j arbitrary: i cnt db)
  case 0
  then have bad: "\<not> all_accepted accepts (working db) (take n (drop i vs))" by simp
  from refused_batch_exists [OF this] have i: "i < length vs" .
  from executemany_refused [OF bad, of StockPrices_query] obtain db1 where
    "executemany accepts StockPrices_query (take n (drop i vs)) db = (Some DatabaseError, db1)"
    "committed db1 = committed db" by blast
  then show ?case
    using "0.prems"(1) i by (subst store_batches.simps) (simp add: Let_def)
next
  case (Suc j)
  let ?batch = "take n (drop i vs)"
  have parts: "take (Suc j * n) (drop i vs) = ?batch @ take (j * n) (drop (i + n) vs)"
    by (simp add: take_add add.commute)
  have index: "i + Suc j * n = i + n + j * n"
    by simp
  from refused_batch_exists [OF Suc.prems(3)] have i: "i < length vs" by simp
  from Suc.prems(2) [unfolded parts] have acc: "all_accepted accepts (working db) ?batch"
    and more: "all_accepted accepts (working db @ ?batch) (take (j * n) (drop (i + n) vs))"
    by (simp_all add: all_accepted_append)
  let ?db1 = "db\<lparr>working := working db @ ?batch,
      executed := executed db @ [(StockPrices_query, ?batch)]\<rparr>"
  have ex: "executemany accepts StockPrices_query ?batch db = (None, ?db1)"
    by (rule executemany_accepted [OF acc])
  have step: "store_batches accepts n vs i cnt db =
      store_batches accepts n vs (i + n) (cnt + length ?batch) (commit ?db1)"
    using Suc.prems(1) i by (subst store_batches.simps) (simp add: ex Let_def)
  have w: "working (commit ?db1) = working db @ ?batch" "committed (commit ?db1) = working db @ ?batch"
    by (simp_all add: commit_def)
  have more': "all_accepted accepts (working (commit ?db1)) (take (j * n) (drop (i + n) vs))"
    unfolding w by (rule more)
  have bad: "\<not> all_accepted accepts (working (commit ?db1) @ take (j * n) (drop (i + n) vs))
      (take n (drop (i + n + j * n) vs))"
    using Suc.prems(3) unfolding parts index w by simp
  from Suc.IH [OF Suc.prems(1) more' bad, of "cnt + length ?batch"]
  obtain db2 where db2:
    "store_batches accepts n vs (i + n) (cnt + length ?batch) (commit ?db1) = (Inl DatabaseError, db2)"
    "committed db2 = (if j = 0 then committed (commit ?db1)
       else working (commit ?db1) @ take (j * n) (drop (i + n) vs))"
    by blast
  have "committed db2 = working db @ take (Suc j * n) (drop i vs)"
    unfolding parts db2(2) w by (cases "j = 0") simp_all
  with db2(1) have "store_batches accepts n vs i cnt db = (Inl DatabaseError, db2) \<and>
      committed db2 = (if Suc j = 0 then committed db else working db @ take (Suc j * n) (drop i vs))"
    unfolding step by simp
  then show ?case by blast
qed

text \<open>
  C5. Given a non-empty \<open>data_list\<close> and a symbol that the metadata store knows,
  \<open>store_stock_data\<close> cuts the rows into consecutive batches of at most
  \<open>batch_size = 1000\<close> rows in the order of the input, passes every batch to the driver,
  and when every batch succeeds all rows are committed and it returns
  \<open>len(data_list)\<close>. On an empty \<open>data_list\<close> or an unknown symbol it returns 0 and
  leaves the database as it was, without a statement executed.
\<close>

theorem store_stock_data_inserts_batches:
  "(data_list = [] \<or> metadata symbol = None \<longrightarrow>
      store_stock_data accepts metadata symbol data_list download_id db = (0, db)) \<and>
   (data_list \<noteq> [] \<and> metadata symbol = Some sid \<and>
    all_accepted accepts (working db) (map (values_tuple sid download_id) data_list) \<longrightarrow>
      fst (store_stock_data accepts metadata symbol data_list download_id db) = length data_list \<and>
      committed (snd (store_stock_data accepts metadata symbol data_list download_id db)) =
        working db @ map (values_tuple sid download_id) data_list \<and>
      (\<exists>batches.
         executed (snd (store_stock_data accepts metadata symbol data_list download_id db)) =
           executed db @ map (Pair StockPrices_query) batches \<and>
         concat batches = map (values_tuple sid download_id) data_list \<and>
         (\<forall>b \<in> set batches. b \<noteq> [] \<and> length b \<le> batch_size)))"
proof (intro conjI impI)
  assume "data_list = [] \<or> metadata symbol = None"
  then show "store_stock_data accepts metadata symbol data_list download_id db = (0, db)"
    by (auto simp: store_stock_data_def)
next
  assume a: "data_list \<noteq> [] \<and> metadata symbol = Some sid \<and>
    all_accepted accepts (working db) (map (values_tuple sid download_id) data_list)"
  let ?vs = "map (values_tuple sid download_id) data_list"
  let ?s = "store_stock_data accepts metadata symbol data_list download_id db"
  from a have "store_batches accepts batch_size ?vs 0 0 db =
     (Inr (length ?vs),
      db\<lparr>committed := working db @ ?vs, working := working db @ ?vs,
         executed := executed db @ map (Pair StockPrices_query) (chunks batch_size ?vs)\<rparr>)"
    by (intro store_batches_from_start) (simp_all add: batch_size_def)
  with a have s: "?s = (length data_list,
      db\<lparr>committed := working db @ ?vs, working := working db @ ?vs,
         executed := executed db @ map (Pair StockPrices_query) (chunks batch_size ?vs)\<rparr>)"
    by (simp add: store_stock_data_def Let_def)
  show "fst ?s = length data_list" and "committed (snd ?s) = working db @ ?vs"
    by (simp_all add: s)
  have "executed (snd ?s) = executed db @ map (Pair StockPrices_query) (chunks batch_size ?vs) \<and>
      concat (chunks batch_size ?vs) = ?vs \<and>
      (\<forall>b \<in> set (chunks batch_size ?vs). b \<noteq> [] \<and> length b \<le> batch_size)"
    using chunks_sizes [of _ batch_size ?vs]
    by (simp add: s chunks_concat batch_size_def)
  then show "\<exists>batches. executed (snd ?s) = executed db @ map (Pair StockPrices_query) batches \<and>
         concat batches = ?vs \<and> (\<forall>b \<in> set batches. b \<noteq> [] \<and> length b \<le> batch_size)"
    by blast
qed

theorem store_stock_data_inserts_batches_witness:
  "store_stock_data accepts_all example_symbols ''AAPL'' [] 7 empty_database = (0, empty_database) \<and>
   fst (store_stock_data accepts_all example_symbols ''AAPL''
          [example_item ''2024-01-02'', example_item ''2024-01-03''] 7 empty_database) = 2 \<and>
   length (committed (snd (store_stock_data accepts_all example_symbols ''AAPL''
          [example_item ''2024-01-02'', example_item ''2024-01-03''] 7 empty_database))) = 2"
proof -
  have a: "[example_item ''2024-01-02'', example_item ''2024-01-03''] \<noteq> [] \<and>
      example_symbols ''AAPL'' = Some 1 \<and>
      all_accepted accepts_all (working empty_database)
        (map (values_tuple 1 7) [example_item ''2024-01-02'', example_item ''2024-01-03''])"
    by (simp add: example_symbols_def accepts_all_def)
  have e: "working empty_database = []" by (simp add: empty_database_def)
  show ?thesis
    using store_stock_data_inserts_batches
        [where data_list = "[]" and accepts = accepts_all and metadata = example_symbols
           and symbol = "''AAPL''" and download_id = 7 and db = empty_database]
      store_stock_data_inserts_batches
        [where data_list = "[example_item ''2024-01-02'', example_item ''2024-01-03'']"
           and accepts = accepts_all and metadata = example_symbols and symbol = "''AAPL''"
           and download_id = 7 and db = empty_database and sid = 1] a e
    by simp
qed

text \<open>
  C10. \<open>store_stock_data\<close> commits each batch on its own. When the table takes the
  first j batches (j at least 1) and refuses a row of the next one, the method rolls
  back that batch and returns 0, and the rows of the j batches stay committed: the
  table holds j times \<open>batch_size\<close> rows more than before, although 0 was returned.
\<close>

theorem store_stock_data_keeps_committed_batches:
  "metadata symbol = Some sid \<and> vs = map (values_tuple sid download_id) data_list \<and> 0 < j \<and>
   all_accepted accepts (working db) (take (j * batch_size) vs) \<and>
   \<not> all_accepted accepts (working db @ take (j * batch_size) vs)
        (take batch_size (drop (j * batch_size) vs)) \<longrightarrow>
     fst (store_stock_data accepts metadata symbol data_list download_id db) = 0 \<and>
     committed (snd (store_stock_data accepts metadata symbol data_list download_id db)) =
       working db @ take (j * batch_size) vs \<and>
     working (snd (store_stock_data accepts metadata symbol data_list download_id db)) =
       committed (snd (store_stock_data accepts metadata symbol data_list download_id db)) \<and>
     length (committed (snd (store_stock_data accepts metadata symbol data_list download_id db))) =
       length (working db) + j * batch_size"
proof
  assume a: "metadata symbol = Some sid \<and> vs = map (values_tuple sid download_id) data_list \<and> 0 < j \<and>
   all_accepted accepts (working db) (take (j * batch_size) vs) \<and>
   \<not> all_accepted accepts (working db @ take (j * batch_size) vs)
        (take batch_size (drop (j * batch_size) vs))"
  let ?s = "store_stock_data accepts metadata symbol data_list download_id db"
  from a refused_batch_exists [of accepts _ batch_size "j * batch_size" vs]
  have lt: "j * batch_size < length vs" by blast
  then have ne: "data_list \<noteq> []" using a by auto
  from a store_batches_refused [of batch_size accepts db j 0 vs 0]
  obtain db1 where db1: "store_batches accepts batch_size vs 0 0 db = (Inl DatabaseError, db1)"
    "committed db1 = working db @ take (j * batch_size) vs"
    by (auto simp: batch_size_def)
  with a ne have s: "?s = (0, rollback db1)"
    by (simp add: store_stock_data_def Let_def)
  show "fst ?s = 0 \<and> committed (snd ?s) = working db @ take (j * batch_size) vs \<and>
     working (snd ?s) = committed (snd ?s) \<and>
     length (committed (snd ?s)) = length (working db) + j * batch_size"
    using db1(2) lt by (simp add: s rollback_def)
qed

lemma all_accepted_replicate:
  "(\<And>table. accepts table r) \<Longrightarrow> all_accepted accepts table (replicate k r)"
  by (rule all_accepted_each) simp

theorem store_stock_data_keeps_committed_batches_witness:
  "fst (store_stock_data (refuses_date ''bad'') example_symbols ''AAPL''
          (replicate 1000 (example_item ''2024-01-02'') @ [example_item ''bad'']) 7
          empty_database) = 0 \<and>
   length (committed (snd (store_stock_data (refuses_date ''bad'') example_symbols ''AAPL''
          (replicate 1000 (example_item ''2024-01-02'') @ [example_item ''bad'']) 7
          empty_database))) = 1000"
proof -
  let ?good = "values_tuple 1 7 (example_item ''2024-01-02'')"
  let ?bad = "values_tuple 1 7 (example_item ''bad'')"
  let ?vs = "replicate 1000 ?good @ [?bad]"
  have vs: "?vs = map (values_tuple 1 7)
      (replicate 1000 (example_item ''2024-01-02'') @ [example_item ''bad''])"
    by simp
  have first_batch: "take (1 * batch_size) ?vs = replicate 1000 ?good"
    and next_batch: "take batch_size (drop (1 * batch_size) ?vs) = [?bad]"
    by (simp_all add: batch_size_def)
  have g: "\<And>table. refuses_date ''bad'' table ?good"
    by (simp add: refuses_date_def values_tuple_def example_item_def)
  have b: "\<And>table. \<not> refuses_date ''bad'' table ?bad"
    by (simp add: refuses_date_def values_tuple_def example_item_def)
  have a: "example_symbols ''AAPL'' = Some 1 \<and> ?vs = map (values_tuple 1 7)
        (replicate 1000 (example_item ''2024-01-02'') @ [example_item ''bad'']) \<and> 0 < (1::nat) \<and>
      all_accepted (refuses_date ''bad'') (working empty_database) (take (1 * batch_size) ?vs) \<and>
      \<not> all_accepted (refuses_date ''bad'') (working empty_database @ take (1 * batch_size) ?vs)
           (take batch_size (drop (1 * batch_size) ?vs))"
    unfolding first_batch next_batch using g b
    by (simp add: example_symbols_def all_accepted_replicate)
  have e: "length (working empty_database) + 1 * batch_size = 1000"
    by (simp add: empty_database_def batch_size_def)
  show ?thesis
    using store_stock_data_keeps_committed_batches
        [where metadata = example_symbols and symbol = "''AAPL''" and sid = 1 and vs = ?vs
           and download_id = 7 and j = 1 and accepts = "refuses_date ''bad''"
           and db = empty_database
           and data_list = "replicate 1000 (example_item ''2024-01-02'') @ [example_item ''bad'']"]
      a e
    by (metis (no_types, lifting))
qed

section \<open>Singletons are built once\<close>

lemma instances_setattr: "instances (setattr a name v h) = instances h"
  by (simp add: setattr_def)

lemma hasattr_setattr: "hasattr (setattr a name v h) a name"
  by (simp add: hasattr_def setattr_def attrs_def)

lemma hasattr_kept: "hasattr h a name \<Longrightarrow> hasattr (setattr b other v h) a name"
  by (auto simp: hasattr_def setattr_def attrs_def)

lemma Singleton_new_instance:
  "Singleton_new cls h = (self, h1) \<Longrightarrow> instances h1 cls = Some self"
  by (auto simp: Singleton_new_def object_new_def split: option.splits)

lemma Singleton_new_others:
  "Singleton_new cls h = (self, h1) \<Longrightarrow> other \<noteq> cls \<Longrightarrow> instances h1 other = instances h other"
  by (auto simp: Singleton_new_def object_new_def split: option.splits)

lemma ConfigManager_init_instances: "instances (ConfigManager_init env self h) = instances h"
  by (simp add: ConfigManager_init_def instances_setattr)

lemma ConfigManager_init_guard: "hasattr (ConfigManager_init env self h) self ''config''"
  by (simp add: ConfigManager_init_def hasattr_setattr)

lemma ConfigManager_call_others:
  "ConfigManager_call env h = (config, h1) \<Longrightarrow> other \<noteq> ConfigManager \<Longrightarrow>
   instances h1 other = instances h other"
  by (auto simp: ConfigManager_call_def ConfigManager_init_instances
      split: prod.splits dest: Singleton_new_others)

lemma object_new_instances: "object_new h = (a, h1) \<Longrightarrow> instances h1 = instances h"
  by (auto simp: object_new_def)

lemma AlphaVantageClient_init_result:
  "AlphaVantageClient_init env key self h = Inr h1 \<Longrightarrow>
   instances h1 AlphaVantageClient = instances h AlphaVantageClient \<and> hasattr h1 self ''api_key''"
proof (cases "hasattr h self ''api_key''")
  case True
  assume "AlphaVantageClient_init env key self h = Inr h1"
  with True show ?thesis by (simp add: AlphaVantageClient_init_def)
next
  case False
  assume a: "AlphaVantageClient_init env key self h = Inr h1"
  obtain config h0 where c: "ConfigManager_call env h = (config, h0)"
    by (cases "ConfigManager_call env h")
  from ConfigManager_call_others [OF c, of AlphaVantageClient]
  have i: "instances h0 AlphaVantageClient = instances h AlphaVantageClient" by simp
  let ?h2 = "setattr self ''config'' (PyRef config) h0"
  from a False c obtain k url where
    h1: "h1 = setattr self ''min_call_interval'' (PyInt 12)
          (setattr self ''last_call_timestamp'' (PyInt 0)
            (setattr self ''base_url'' url (setattr self ''api_key'' k ?h2)))"
    by (auto simp: AlphaVantageClient_init_def bind_def Let_def split: sum.splits if_splits)
  show ?thesis
    unfolding h1 by (simp add: instances_setattr i hasattr_setattr hasattr_kept)
qed

lemma SQLServerConnector_call_instances:
  "SQLServerConnector_call env database h = Inr (db, h1) \<Longrightarrow>
   instances h1 MetadataManager = instances h MetadataManager"
proof -
  assume a: "SQLServerConnector_call env database h = Inr (db, h1)"
  obtain self h0 where n: "object_new h = (self, h0)"
    by (cases "object_new h")
  obtain config h0' where c: "ConfigManager_call env h0 = (config, h0')"
    by (cases "ConfigManager_call env h0")
  from object_new_instances [OF n] ConfigManager_call_others [OF c, of MetadataManager]
  have i: "instances h0' MetadataManager = instances h MetadataManager" by simp
  from a n c show ?thesis
    by (auto simp: SQLServerConnector_call_def bind_def Let_def instances_setattr i
        split: sum.splits if_splits)
qed

lemma MetadataManager_init_result:
  "MetadataManager_init env self h = Inr h1 \<Longrightarrow>
   instances h1 MetadataManager = instances h MetadataManager \<and> hasattr h1 self ''db''"
  by (auto simp: MetadataManager_init_def bind_def instances_setattr hasattr_setattr
      split: if_splits sum.splits dest: SQLServerConnector_call_instances)

lemma call_class_result:
  assumes "call_class env cls key h = Inr (self, h1)"
  shows "instances h1 cls = Some self \<and> hasattr h1 self (guard_attr cls)"
proof -
  obtain s h0 where n: "Singleton_new cls h = (s, h0)"
    by (cases "Singleton_new cls h")
  note i = Singleton_new_instance [OF n]
  show ?thesis
  proof (cases cls)
    case AlphaVantageClient
    with assms n have "s = self" "AlphaVantageClient_init env key self h0 = Inr h1"
      by (auto simp: call_class_def bind_def split: sum.splits)
    with AlphaVantageClient_init_result [of env key self h0 h1] i AlphaVantageClient
    show ?thesis by simp
  next
    case ConfigManager
    with assms n have "s = self" "h1 = ConfigManager_init env self h0"
      by (auto simp: call_class_def bind_def)
    with i ConfigManager show ?thesis
      by (simp add: ConfigManager_init_instances ConfigManager_init_guard)
  next
    case MetadataManager
    with assms n have "s = self" "MetadataManager_init env self h0 = Inr h1"
      by (auto simp: call_class_def bind_def split: sum.splits)
    with MetadataManager_init_result [of env self h0 h1] i MetadataManager
    show ?thesis by simp
  qed
qed

lemma call_class_again:
  assumes "instances h cls = Some self" "hasattr h self (guard_attr cls)"
  shows "call_class env cls key h = Inr (self, h)"
  using assms
  by (cases cls)
    (simp_all add: call_class_def Singleton_new_def bind_def AlphaVantageClient_init_def
      ConfigManager_init_def MetadataManager_init_def)

text \<open>
  C9. For each class that inherits \<open>Singleton\<close>, a construction that follows a
  construction returns the same object and changes nothing in the heap, whatever its
  argument and the environment then are. More generally, in every state in which the
  class has its instance and the instance has the attribute that \<open>__init__\<close> tests, a
  construction returns that instance and leaves all attributes as they are; for
  \<open>AlphaVantageClient\<close> these include \<open>api_key\<close> and \<open>last_call_timestamp\<close>.
\<close>

theorem singleton_is_built_once:
  "(call_class env cls key h = Inr (self, h1) \<longrightarrow>
      call_class env' cls key' h1 = Inr (self, h1)) \<and>
   (instances h cls = Some self \<and> hasattr h self (guard_attr cls) \<longrightarrow>
      call_class env cls key h = Inr (self, h))"
proof (intro conjI impI)
  assume "call_class env cls key h = Inr (self, h1)"
  from call_class_result [OF this] show "call_class env' cls key' h1 = Inr (self, h1)"
    by (intro call_class_again) simp_all
next
  assume "instances h cls = Some self \<and> hasattr h self (guard_attr cls)"
  then show "call_class env cls key h = Inr (self, h)"
    by (intro call_class_again) simp_all
qed

theorem singleton_is_built_once_witness:
  "\<exists>self h1.
     call_class example_py_env AlphaVantageClient (PyStr ''first'') empty_heap = Inr (self, h1) \<and>
     attrs h1 self ''api_key'' = Some (PyStr ''first'') \<and>
     attrs h1 self ''last_call_timestamp'' = Some (PyInt 0) \<and>
     call_class example_py_env AlphaVantageClient (PyStr ''second'') h1 = Inr (self, h1)"
proof -
  let ?r = "call_class example_py_env AlphaVantageClient (PyStr ''first'') empty_heap"
  have "\<exists>self h1. ?r = Inr (self, h1) \<and>
      attrs h1 self ''api_key'' = Some (PyStr ''first'') \<and>
      attrs h1 self ''last_call_timestamp'' = Some (PyInt 0)"
    by (simp add: call_class_def Singleton_new_def object_new_def AlphaVantageClient_init_def
        ConfigManager_call_def ConfigManager_init_def ConfigManager_get_def hasattr_def attrs_def
        setattr_def bind_def getenv_def empty_heap_def example_py_env_def Let_def)
  then obtain self h1 where r: "?r = Inr (self, h1)"
    "attrs h1 self ''api_key'' = Some (PyStr ''first'')"
    "attrs h1 self ''last_call_timestamp'' = Some (PyInt 0)"
    by blast
  from singleton_is_built_once
    [where env = example_py_env and cls = AlphaVantageClient and key = "PyStr ''first''"
       and h = empty_heap and self = self and ?h1.0 = h1 and env' = example_py_env
       and key' = "PyStr ''second''"] r(1)
  have "call_class example_py_env AlphaVantageClient (PyStr ''second'') h1 = Inr (self, h1)"
    by blast
  with r show ?thesis by blast
qed

section \<open>The transaction of the web form\<close>

text \<open>
  C7 at a request that the form can send: the symbol exists, the dates are well formed
  and in order, the download is not empty, and the table refuses the second record. The
  claim has the stored rows of the symbol unchanged then. The code flashes the error
  and commits: the row stored before is gone, and the first record of the download is
  stored.
\<close>

theorem descargar_commits_after_failed_insert:
  "fst (descargar example_web_env example_request stored_database) = ''error'' \<and>
   committed stored_database = [stored_row] \<and>
   committed (snd (descargar example_web_env example_request stored_database)) =
     [Named [(''symbol_id'', SqlInt 1), (''date'', SqlText ''2024-01-02''), (''open'', SqlFloat 10),
             (''high'', SqlFloat 12), (''low'', SqlFloat 9), (''close'', SqlFloat 11),
             (''volume'', SqlInt 1500)]]"
  by (simp add: descargar_def example_web_env_def example_request_def stored_database_def
      example_download_def delete_and_insert_def engine_connect_def execute_delete_def
      insert_params_def row_get_def bind_def decimal_def execute_def executemany_def
      refuses_null_volume_def commit_def Let_def)

section \<open>What reaches the driver\<close>

lemma insert_rows_executed: "executed (snd (insert_rows accepts rs db)) = executed db"
  by (induction rs arbitrary: db) auto

lemma executemany_executed:
  "executed (snd (executemany accepts q batch db)) = executed db @ [(q, batch)]"
  by (simp add: executemany_def insert_rows_executed)

lemma execute_executed:
  "executed (snd (execute accepts q params db)) = executed db @ [(q, [params])]"
  by (simp add: execute_def executemany_executed)

lemma Downloader_insert_loop_executed:
  "e \<in> set (executed (snd (Downloader_insert_loop accepts sid rows db))) \<Longrightarrow>
   e \<in> set (executed db) \<or>
   (\<exists>row \<in> set rows.
      e = (Downloader_insert_sql,
           [Positional [SqlInt sid, fecha row, SqlFloat (apertura row), SqlFloat (alto row),
                        SqlFloat (bajo row), SqlFloat (cierre row), SqlInt (volumen row)]]))"
proof (induction rows arbitrary: db)
  case Nil
  then show ?case by simp
next
  case (Cons row rest)
  let ?p = "Positional [SqlInt sid, fecha row, SqlFloat (apertura row), SqlFloat (alto row),
      SqlFloat (bajo row), SqlFloat (cierre row), SqlInt (volumen row)]"
  obtain r db1 where x: "execute accepts Downloader_insert_sql ?p db = (r, db1)"
    by (cases "execute accepts Downloader_insert_sql ?p db")
  from execute_executed [of accepts Downloader_insert_sql ?p db] x
  have db1: "executed db1 = executed db @ [(Downloader_insert_sql, [?p])]" by simp
  show ?case
  proof (cases r)
    case None
    with Cons.prems x
    have "e \<in> set (executed (snd (Downloader_insert_loop accepts sid rest db1)))" by simp
    from Cons.IH [OF this] db1 show ?thesis by auto
  next
    case (Some err)
    with Cons.prems x db1 show ?thesis by auto
  qed
qed

lemma store_batches_executed:
  "e \<in> set (executed (snd (store_batches accepts n vs i cnt db))) \<Longrightarrow>
   e \<in> set (executed db) \<or> (\<exists>batch. e = (StockPrices_query, batch) \<and> set batch \<subseteq> set vs)"
proof (induction accepts n vs i cnt db rule: store_batches.induct)
  case (1 accepts n vs i cnt db)
  show ?case
  proof (cases "n \<noteq> 0 \<and> i < length vs")
    case False
    with "1.prems" show ?thesis
      by (subst (asm) store_batches.simps) (auto split: if_splits)
  next
    case True
    let ?batch = "take n (drop i vs)"
    obtain r db1 where x: "executemany accepts StockPrices_query ?batch db = (r, db1)"
      by (cases "executemany accepts StockPrices_query ?batch db")
    from executemany_executed [of accepts StockPrices_query ?batch db] x
    have db1: "executed db1 = executed db @ [(StockPrices_query, ?batch)]" by simp
    have sub: "set ?batch \<subseteq> set vs"
      by (meson set_drop_subset set_take_subset subset_trans)
    show ?thesis
    proof (cases r)
      case None
      with "1.prems" True x
      have "e \<in> set (executed (snd (store_batches accepts n vs (i + n) (cnt + length ?batch)
          (commit db1))))"
        by (subst (asm) store_batches.simps) (simp add: Let_def)
      from "1.IH" [OF _ _ refl x [symmetric] _ this] True None
      have "e \<in> set (executed (commit db1)) \<or>
          (\<exists>batch. e = (StockPrices_query, batch) \<and> set batch \<subseteq> set vs)"
        by simp
      with db1 sub show ?thesis by (auto simp: commit_def)
    next
      case (Some err)
      with "1.prems" True x
      have "e \<in> set (executed db1)"
        by (subst (asm) store_batches.simps) (simp add: Let_def)
      with db1 sub show ?thesis by auto
    qed
  qed
qed

lemma store_stock_data_executed:
  "e \<in> set (executed (snd (store_stock_data accepts metadata symbol data_list did db))) \<Longrightarrow>
   e \<in> set (executed db) \<or>
   (\<exists>sid batch. metadata symbol = Some sid \<and> e = (StockPrices_query, batch) \<and>
      set batch \<subseteq> values_tuple sid did ` set data_list)"
proof (cases "data_list = [] \<or> metadata symbol = None")
  case True
  assume "e \<in> set (executed (snd (store_stock_data accepts metadata symbol data_list did db)))"
  with True show ?thesis by (auto simp: store_stock_data_def split: if_splits)
next
  case False
  assume a: "e \<in> set (executed (snd (store_stock_data accepts metadata symbol data_list did db)))"
  from False obtain sid where sid: "metadata symbol = Some sid" by auto
  let ?vs = "map (values_tuple sid did) data_list"
  obtain r db1 where s: "store_batches accepts batch_size ?vs 0 0 db = (r, db1)"
    by (cases "store_batches accepts batch_size ?vs 0 0 db")
  from a False sid s have "e \<in> set (executed db1)"
    by (auto simp: store_stock_data_def Let_def rollback_def split: sum.splits)
  with store_batches_executed [of e accepts batch_size ?vs 0 0 db] s sid show ?thesis
    by auto
qed

lemma insert_loop_executed:
  "e \<in> set (executed (snd (insert_loop env sid rows db))) \<Longrightarrow>
   e \<in> set (executed db) \<or>
   (\<exists>row \<in> set rows. \<exists>p. insert_params env sid row = Inr p \<and> e = (insert_sql, [p]))"
proof (induction rows arbitrary: db)
  case Nil
  then show ?case by simp
next
  case (Cons row rest)
  show ?case
  proof (cases "insert_params env sid row")
    case (Inl err)
    with Cons.prems show ?thesis by simp
  next
    case (Inr p)
    obtain r db1 where x: "execute (table_accepts env) insert_sql p db = (r, db1)"
      by (cases "execute (table_accepts env) insert_sql p db")
    from execute_executed [of "table_accepts env" insert_sql p db] x
    have db1: "executed db1 = executed db @ [(insert_sql, [p])]" by simp
    show ?thesis
    proof (cases r)
      case None
      with Cons.prems x Inr
      have "e \<in> set (executed (snd (insert_loop env sid rest db1)))" by simp
      from Cons.IH [OF this] db1 Inr show ?thesis by auto
    next
      case (Some err)
      with Cons.prems x db1 Inr show ?thesis by auto
    qed
  qed
qed

lemma delete_and_insert_executed:
  "e \<in> set (executed (snd (delete_and_insert env sid rows db))) \<Longrightarrow>
   e \<in> set (executed db) \<or> e = (delete_sql, [Named [(''symbol_id'', SqlText sid)]]) \<or>
   (\<exists>row \<in> set rows. \<exists>p. insert_params env sid row = Inr p \<and> e = (insert_sql, [p]))"
proof -
  assume a: "e \<in> set (executed (snd (delete_and_insert env sid rows db)))"
  obtain r db1 where d: "execute_delete env sid (engine_connect db) = (r, db1)"
    by (cases "execute_delete env sid (engine_connect db)")
  then have db1: "executed db1 = executed db @ [(delete_sql, [Named [(''symbol_id'', SqlText sid)]])]"
    by (auto simp: execute_delete_def engine_connect_def Let_def split: if_splits)
  show ?thesis
  proof (cases r)
    case (Some err)
    with a d db1 show ?thesis
      by (auto simp: delete_and_insert_def commit_def)
  next
    case None
    obtain r2 db2 where i: "insert_loop env sid rows db1 = (r2, db2)"
      by (cases "insert_loop env sid rows db1")
    from a d None i have "e \<in> set (executed db2)"
      by (auto simp: delete_and_insert_def commit_def split: option.splits)
    with insert_loop_executed [of e env sid rows db1] i db1 show ?thesis
      by auto
  qed
qed

lemma descargar_executed:
  "e \<in> set (executed (snd (descargar env request db))) \<Longrightarrow>
   e \<in> set (executed db) \<or>
   (\<exists>sid. symbol_id request = Some sid \<and>
      (e = (delete_sql, [Named [(''symbol_id'', SqlText sid)]]) \<or>
       (\<exists>row p. insert_params env sid row = Inr p \<and> e = (insert_sql, [p]))))"
  by (auto simp: descargar_def split: option.splits if_splits sum.splits prod.splits
      dest!: delete_and_insert_executed)

text \<open>
  C8. On the three paths that write rows of stock prices, every statement that reaches
  the driver has one of the fixed texts of the source, whatever the rows hold, and the
  values of a row travel beside the text as its parameters: positional ones in the
  script \<open>Downloader.py\<close> (seven placeholders) and in the batch insert (nine), named
  ones in the web form.
\<close>

theorem inserts_are_parameterized:
  "(\<forall>e \<in> set (executed (Downloader_symbol accepts sid rows db)).
      e \<in> set (executed db) \<or>
      (\<exists>row \<in> set rows.
         e = (Downloader_insert_sql,
              [Positional [SqlInt sid, fecha row, SqlFloat (apertura row), SqlFloat (alto row),
                           SqlFloat (bajo row), SqlFloat (cierre row), SqlInt (volumen row)]]))) \<and>
   (\<forall>e \<in> set (executed (snd (store_stock_data accepts metadata symbol data_list did db))).
      e \<in> set (executed db) \<or>
      (\<exists>sid batch. metadata symbol = Some sid \<and> e = (StockPrices_query, batch) \<and>
         set batch \<subseteq> values_tuple sid did ` set data_list)) \<and>
   (\<forall>e \<in> set (executed (snd (descargar env request db))).
      e \<in> set (executed db) \<or>
      (\<exists>sid. symbol_id request = Some sid \<and>
         (e = (delete_sql, [Named [(''symbol_id'', SqlText sid)]]) \<or>
          (\<exists>row p. insert_params env sid row = Inr p \<and> e = (insert_sql, [p]))))) \<and>
   count_list Downloader_insert_sql CHR ''?'' = 7 \<and>
   count_list StockPrices_query CHR ''?'' = 9"
proof (intro conjI ballI)
  fix e
  assume "e \<in> set (executed (Downloader_symbol accepts sid rows db))"
  then have "e \<in> set (executed (snd (Downloader_insert_loop accepts sid rows db)))"
    by (auto simp: Downloader_symbol_def commit_def split: prod.splits option.splits)
  then show "e \<in> set (executed db) \<or>
      (\<exists>row \<in> set rows.
         e = (Downloader_insert_sql,
              [Positional [SqlInt sid, fecha row, SqlFloat (apertura row), SqlFloat (alto row),
                           SqlFloat (bajo row), SqlFloat (cierre row), SqlInt (volumen row)]]))"
    by (rule Downloader_insert_loop_executed)
next
  fix e
  assume "e \<in> set (executed (snd (store_stock_data accepts metadata symbol data_list did db)))"
  then show "e \<in> set (executed db) \<or>
      (\<exists>sid batch. metadata symbol = Some sid \<and> e = (StockPrices_query, batch) \<and>
         set batch \<subseteq> values_tuple sid did ` set data_list)"
    by (rule store_stock_data_executed)
next
  fix e
  assume "e \<in> set (executed (snd (descargar env request db)))"
  then show "e \<in> set (executed db) \<or>
      (\<exists>sid. symbol_id request = Some sid \<and>
         (e = (delete_sql, [Named [(''symbol_id'', SqlText sid)]]) \<or>
          (\<exists>row p. insert_params env sid row = Inr p \<and> e = (insert_sql, [p]))))"
    by (rule descargar_executed)
next
  show "count_list Downloader_insert_sql CHR ''?'' = 7"
    by (simp add: Downloader_insert_sql_def)
  show "count_list StockPrices_query CHR ''?'' = 9"
    by (simp add: StockPrices_query_def)
qed

theorem inserts_are_parameterized_witness:
  "executed (Downloader_symbol accepts_all 1 example_historico empty_database) \<noteq> [] \<and>
   fst (hd (executed (Downloader_symbol accepts_all 1 example_historico empty_database))) =
     Downloader_insert_sql \<and>
   executed (snd (store_stock_data accepts_all example_symbols ''AAPL''
                    [example_item ''2024-01-02''] 7 empty_database)) \<noteq> [] \<and>
   fst (hd (executed (snd (store_stock_data accepts_all example_symbols ''AAPL''
                             [example_item ''2024-01-02''] 7 empty_database)))) =
     StockPrices_query \<and>
   executed (snd (descargar example_web_env example_request stored_database)) \<noteq> [] \<and>
   (fst (hd (executed (snd (descargar example_web_env example_request stored_database)))) = delete_sql \<or>
    fst (hd (executed (snd (descargar example_web_env example_request stored_database)))) = insert_sql)"
proof -
  let ?d = "executed (Downloader_symbol accepts_all 1 example_historico empty_database)"
  let ?s = "executed (snd (store_stock_data accepts_all example_symbols ''AAPL''
      [example_item ''2024-01-02''] 7 empty_database))"
  let ?w = "executed (snd (descargar example_web_env example_request stored_database))"
  have d: "?d \<noteq> []"
    by (simp add: Downloader_symbol_def example_historico_def execute_def executemany_def
        accepts_all_def empty_database_def commit_def)
  have s: "?s \<noteq> []"
    by (simp add: store_stock_data_def example_symbols_def batch_size_def
        store_batches.simps [of _ _ _ 0] store_batches.simps [of _ _ _ 1000]
        executemany_def accepts_all_def empty_database_def commit_def Let_def)
  have w: "?w \<noteq> []"
    by (simp add: descargar_def example_web_env_def example_request_def stored_database_def
        example_download_def delete_and_insert_def engine_connect_def execute_delete_def
        insert_params_def row_get_def bind_def decimal_def execute_def executemany_def
        refuses_null_volume_def commit_def Let_def)
  have e: "executed empty_database = []" "executed stored_database = []"
    by (simp_all add: empty_database_def stored_database_def)
  note t = inserts_are_parameterized
    [where accepts = accepts_all and sid = 1 and rows = example_historico and db = empty_database
       and metadata = example_symbols and symbol = "''AAPL''"
       and data_list = "[example_item ''2024-01-02'']" and did = 7]
  note u = inserts_are_parameterized
    [where env = example_web_env and request = example_request and db = stored_database]
  from d have "hd ?d \<in> set ?d" by simp
  with t e have 1: "fst (hd ?d) = Downloader_insert_sql" by fastforce
  from s have "hd ?s \<in> set ?s" by simp
  with t e have 2: "fst (hd ?s) = StockPrices_query" by fastforce
  from w have "hd ?w \<in> set ?w" by simp
  with u e have 3: "fst (hd ?w) = delete_sql \<or> fst (hd ?w) = insert_sql" by fastforce
  from d s w 1 2 3 show ?thesis by blast
qed

section \<open>Every retry is bounded\<close>




















end
